theory Spec2Isabelle
  imports Complex_Main
begin

text \<open>
  A model of \<^verbatim>\<open>openroute_directions.py\<close>, a command-line client that geocodes two
  addresses, asks a routing service for the route between them and prints the duration,
  the distance, an optional fuel estimate and the steps. Every function of the source is
  a function of the same name here. What a function prints and requests is threaded
  through a state; what it raises is the left summand of its result.
\<close>

section \<open>Values of the Python runtime\<close>

text \<open>
  The program handles the values that \<^verbatim>\<open>json.loads\<close> produces: \<^verbatim>\<open>None\<close>,
  booleans, unbounded integers, floats, strings, lists and dicts. A float is an IEEE
  binary64 value: a finite one is kept as the real number it denotes (\<open>Fin 0\<close> is
  \<open>+0.0\<close>), negative zero, the two infinities and NaN are values of their own. Strings
  are lists of \<^typ>\<open>char\<close>, read as code points below 256. A dict is an association
  list, looked up with \<^const>\<open>map_of\<close>.
\<close>

datatype pyfloat = Fin real | NegZero | PosInf | NegInf | NaN

datatype pyval =
    PNone
  | PBool bool
  | PInt int
  | PFloat pyfloat
  | PStr string
  | PList "pyval list"
  | PDict "(string \<times> pyval) list"

datatype exn =
    TypeError
  | ValueError
  | OverflowError
  | ZeroDivisionError
  | AttributeError
  | KeyError
  | IndexError
  | JSONDecodeError
  | EOFError
  | SystemExit int

subsection \<open>Rounding to binary64\<close>

fun bitlen :: "nat \<Rightarrow> nat" where
  "bitlen n = (if n = 0 then 0 else Suc (bitlen (n div 2)))"

declare bitlen.simps [simp del]

definition pow2 :: "int \<Rightarrow> real" where
  "pow2 e = (if 0 \<le> e then 2 ^ nat e else 1 / 2 ^ nat (- e))"

text \<open>
  \<open>ilog2 a\<close> is \<open>\<lfloor>log\<^sub>2 a\<rfloor>\<close> for a positive real \<open>a\<close>: one less than the bit
  length of \<open>\<lfloor>a\<rfloor>\<close> from 1 on, and minus the bit length of \<open>\<lceil>1 / a\<rceil> - 1\<close> below 1.
\<close>

definition ilog2 :: "real \<Rightarrow> int" where
  "ilog2 a = (if 1 \<le> a then int (bitlen (nat \<lfloor>a\<rfloor>)) - 1
              else - int (bitlen (nat (\<lceil>1 / a\<rceil> - 1))))"

text \<open>Round half to even, to an integer.\<close>

definition rne :: "real \<Rightarrow> int" where
  "rne x = (let f = \<lfloor>x\<rfloor>; r = x - of_int f in
     if r < 1 / 2 then f
     else if 1 / 2 < r then f + 1
     else if even f then f else f + 1)"

text \<open>
  The nearest number with a 53-bit significand and an exponent of at least \<open>-1074\<close>,
  ties to even, before the overflow check.
\<close>

definition round53 :: "real \<Rightarrow> real" where
  "round53 x = (if x = 0 then 0 else
     let a = \<bar>x\<bar>; e = max (ilog2 a - 52) (- 1074); m = rne (a / pow2 e)
     in sgn x * of_int m * pow2 e)"

text \<open>
  The result of an arithmetic operation whose exact value is \<open>x\<close>: overflow gives an
  infinity, a zero result keeps the sign \<open>neg\<close> of the exact operation.
\<close>

definition fl :: "bool \<Rightarrow> real \<Rightarrow> pyfloat" where
  "fl neg x = (let r = round53 x in
     if 2 ^ 1024 \<le> r then PosInf
     else if r \<le> - (2 ^ 1024) then NegInf
     else if r = 0 then (if neg then NegZero else Fin 0)
     else Fin r)"

subsection \<open>Float arithmetic\<close>

definition fval :: "pyfloat \<Rightarrow> real" where
  "fval x = (case x of Fin q \<Rightarrow> q | _ \<Rightarrow> 0)"

definition fneg :: "pyfloat \<Rightarrow> bool" where
  "fneg x = (case x of Fin q \<Rightarrow> q < 0 | NegZero \<Rightarrow> True | NegInf \<Rightarrow> True | _ \<Rightarrow> False)"

definition fzero :: "pyfloat \<Rightarrow> bool" where
  "fzero x = (x = Fin 0 \<or> x = NegZero)"

definition finf :: "pyfloat \<Rightarrow> bool" where
  "finf x = (x = PosInf \<or> x = NegInf)"

definition signed_inf :: "bool \<Rightarrow> pyfloat" where
  "signed_inf neg = (if neg then NegInf else PosInf)"

definition signed_zero :: "bool \<Rightarrow> pyfloat" where
  "signed_zero neg = (if neg then NegZero else Fin 0)"

text \<open>\<^verbatim>\<open>x / y\<close> on floats: a zero divisor raises \<^verbatim>\<open>ZeroDivisionError\<close>.\<close>

definition fdiv :: "pyfloat \<Rightarrow> pyfloat \<Rightarrow> exn + pyfloat" where
  "fdiv x y =
     (if fzero y then Inl ZeroDivisionError
      else if x = NaN \<or> y = NaN then Inr NaN
      else if finf x then (if finf y then Inr NaN else Inr (signed_inf (fneg x \<noteq> fneg y)))
      else if finf y then Inr (signed_zero (fneg x \<noteq> fneg y))
      else Inr (fl (fneg x \<noteq> fneg y) (fval x / fval y)))"

text \<open>\<^verbatim>\<open>x * y\<close> on floats never raises.\<close>

definition fmul :: "pyfloat \<Rightarrow> pyfloat \<Rightarrow> pyfloat" where
  "fmul x y =
     (if x = NaN \<or> y = NaN then NaN
      else if finf x \<or> finf y then
        (if fzero x \<or> fzero y then NaN else signed_inf (fneg x \<noteq> fneg y))
      else fl (fneg x \<noteq> fneg y) (fval x * fval y))"

text \<open>
  \<^verbatim>\<open>float(i)\<close> for an integer: the nearest double, ties to even, and
  \<^verbatim>\<open>OverflowError\<close> from \<open>2\<^sup>1\<^sup>0\<^sup>2\<^sup>4 - 2\<^sup>9\<^sup>7\<^sup>0\<close> on, the first magnitude that rounds to
  \<open>2\<^sup>1\<^sup>0\<^sup>2\<^sup>4\<close>.
\<close>

definition float_of_int :: "int \<Rightarrow> exn + pyfloat" where
  "float_of_int i =
     (if 2 ^ 1024 - 2 ^ 970 \<le> \<bar>i\<bar> then Inl OverflowError
      else Inr (Fin (round53 (of_int i))))"

text \<open>
  \<^verbatim>\<open>round(x)\<close> with one argument: the nearest integer, ties to even;
  \<^verbatim>\<open>ValueError\<close> on NaN and \<^verbatim>\<open>OverflowError\<close> on an infinity.
\<close>

definition round_float :: "pyfloat \<Rightarrow> exn + int" where
  "round_float x = (case x of
       Fin q \<Rightarrow> Inr (rne q)
     | NegZero \<Rightarrow> Inr 0
     | NaN \<Rightarrow> Inl ValueError
     | _ \<Rightarrow> Inl OverflowError)"

text \<open>The float literals of the source.\<close>

definition f1000 :: pyfloat where "f1000 = Fin 1000"
definition f100 :: pyfloat where "f100 = Fin 100"
definition f1609_344 :: pyfloat where "f1609_344 = fl False (1609344 / 1000)"

section \<open>Strings\<close>

text \<open>
  The characters that \<^verbatim>\<open>str.isspace\<close> accepts among the code points below 256;
  \<^verbatim>\<open>str.strip()\<close> removes them at both ends.
\<close>

definition is_space :: "char \<Rightarrow> bool" where
  "is_space c = (of_char c \<in> {9, 10, 11, 12, 13, 28, 29, 30, 31, 32, 133, 160 :: nat})"

definition strip :: "string \<Rightarrow> string" where
  "strip s = rev (dropWhile is_space (rev (dropWhile is_space s)))"

text \<open>
  \<^verbatim>\<open>str.lower()\<close> on code points below 256: the letters \<^verbatim>\<open>A\<close> to \<^verbatim>\<open>Z\<close> and the
  capital letters from 192 to 222 (215 is the multiplication sign) move up by 32, which
  sets bit 5 of the code point.
\<close>

definition lower_char :: "char \<Rightarrow> char" where
  "lower_char c = (let n = (of_char c :: nat) in
     if (65 \<le> n \<and> n \<le> 90) \<or> (192 \<le> n \<and> n \<le> 222 \<and> n \<noteq> 215)
     then (case c of Char b0 b1 b2 b3 b4 b5 b6 b7 \<Rightarrow> Char b0 b1 b2 b3 b4 True b6 b7)
     else c)"

definition lower :: "string \<Rightarrow> string" where
  "lower s = map lower_char s"

definition is_digit :: "char \<Rightarrow> bool" where
  "is_digit c = (48 \<le> (of_char c :: nat) \<and> (of_char c :: nat) \<le> 57)"

definition digit_val :: "char \<Rightarrow> nat" where
  "digit_val c = of_char c - 48"

definition digit_char :: "nat \<Rightarrow> char" where
  "digit_char n = ''0123456789'' ! n"

fun str_nat :: "nat \<Rightarrow> string" where
  "str_nat n = (if n < 10 then [digit_char n] else str_nat (n div 10) @ [digit_char (n mod 10)])"

declare str_nat.simps [simp del]

text \<open>\<^verbatim>\<open>str(i)\<close> for an integer.\<close>

definition str_int :: "int \<Rightarrow> string" where
  "str_int i = (if i < 0 then CHR ''-'' # str_nat (nat (- i)) else str_nat (nat i))"

text \<open>
  The format \<^verbatim>\<open>02d\<close>: width 2, padded with zeros, the sign counted in the width.
\<close>

definition fmt_02d :: "int \<Rightarrow> string" where
  "fmt_02d i = (let s = str_int i in
     if length s < 2 then replicate (2 - length s) CHR ''0'' @ s else s)"

text \<open>
  The format \<^verbatim>\<open>.df\<close> of a float, for \<open>d > 0\<close>: the exact value rounded to \<open>d\<close>
  decimals, ties to even; a negative value keeps its sign when it rounds to zero.
\<close>

definition fixed_digits :: "nat \<Rightarrow> nat \<Rightarrow> string" where
  "fixed_digits d n = (let f = str_nat (n mod 10 ^ d) in
     str_nat (n div 10 ^ d) @ [CHR ''.''] @ replicate (d - length f) CHR ''0'' @ f)"

definition fmt_fixed :: "nat \<Rightarrow> pyfloat \<Rightarrow> string" where
  "fmt_fixed d x = (case x of
       NaN \<Rightarrow> ''nan''
     | PosInf \<Rightarrow> ''inf''
     | NegInf \<Rightarrow> ''-inf''
     | NegZero \<Rightarrow> CHR ''-'' # fixed_digits d 0
     | Fin q \<Rightarrow> (if q < 0 then [CHR ''-''] else []) @ fixed_digits d (nat (rne (\<bar>q\<bar> * 10 ^ d))))"

subsection \<open>\<^verbatim>\<open>float(s)\<close> for a string\<close>

text \<open>
  \<^verbatim>\<open>float\<close> strips less than \<^verbatim>\<open>str.strip()\<close>: the separators 28 to 31 stay, so a
  string that begins or ends with one of them is rejected. After stripping: an optional
  sign, then \<^verbatim>\<open>inf\<close>, \<^verbatim>\<open>infinity\<close> or \<^verbatim>\<open>nan\<close> in any case, or a decimal number:
  digits (single underscores allowed between digits) with an optional point and
  fraction, or a point and a fraction, and an optional exponent. Anything else raises
  \<^verbatim>\<open>ValueError\<close>. The value is the nearest double.
\<close>

definition is_float_space :: "char \<Rightarrow> bool" where
  "is_float_space c = (of_char c \<in> {9, 10, 11, 12, 13, 32, 133, 160 :: nat})"

definition float_strip :: "string \<Rightarrow> string" where
  "float_strip s = rev (dropWhile is_float_space (rev (dropWhile is_float_space s)))"

fun digitpart :: "string \<Rightarrow> nat list \<times> string" where
  "digitpart [] = ([], [])"
| "digitpart [c] = (if is_digit c then ([digit_val c], []) else ([], [c]))"
| "digitpart (c # u # cs) =
     (if \<not> is_digit c then ([], c # u # cs)
      else if u = CHR ''_'' \<and> cs \<noteq> [] \<and> is_digit (hd cs)
        then (case digitpart cs of (ds, r) \<Rightarrow> (digit_val c # ds, r))
      else (case digitpart (u # cs) of (ds, r) \<Rightarrow> (digit_val c # ds, r)))"

definition nat_of_digits :: "nat list \<Rightarrow> nat" where
  "nat_of_digits ds = foldl (\<lambda>a d. 10 * a + d) 0 ds"

definition pow10 :: "int \<Rightarrow> real" where
  "pow10 e = (if 0 \<le> e then 10 ^ nat e else 1 / 10 ^ nat (- e))"

definition split_sign :: "string \<Rightarrow> bool \<times> string" where
  "split_sign s = (case s of
       [] \<Rightarrow> (False, [])
     | c # cs \<Rightarrow>
         if c = CHR ''-'' then (True, cs) else if c = CHR ''+'' then (False, cs) else (False, s))"

definition parse_exponent :: "string \<Rightarrow> int option" where
  "parse_exponent s = (case s of
       [] \<Rightarrow> Some 0
     | c # cs \<Rightarrow>
         if c = CHR ''e'' \<or> c = CHR ''E'' then
           (case split_sign cs of (neg, t) \<Rightarrow>
              (case digitpart t of (ds, r) \<Rightarrow>
                 if ds \<noteq> [] \<and> r = []
                 then Some (if neg then - int (nat_of_digits ds) else int (nat_of_digits ds))
                 else None))
         else None)"

definition parse_decimal :: "string \<Rightarrow> real option" where
  "parse_decimal s = (case digitpart s of (ip, r) \<Rightarrow>
     (case (case r of
              [] \<Rightarrow> ([], r)
            | c # r' \<Rightarrow> if c = CHR ''.'' then digitpart r' else ([], r)) of (fp, t) \<Rightarrow>
        if ip = [] \<and> fp = [] then None
        else (case parse_exponent t of
                None \<Rightarrow> None
              | Some e \<Rightarrow>
                  Some (of_nat (nat_of_digits (ip @ fp)) * pow10 (e - int (length fp))))))"

definition float_of_str :: "string \<Rightarrow> exn + pyfloat" where
  "float_of_str s = (case split_sign (float_strip s) of (neg, u) \<Rightarrow>
     if lower u = ''inf'' \<or> lower u = ''infinity'' then Inr (signed_inf neg)
     else if lower u = ''nan'' then Inr NaN
     else (case parse_decimal u of
             None \<Rightarrow> Inl ValueError
           | Some q \<Rightarrow> Inr (fl neg (if neg then - q else q))))"

section \<open>Operations on values\<close>

text \<open>\<^verbatim>\<open>float(v)\<close>.\<close>

definition py_float :: "pyval \<Rightarrow> exn + pyfloat" where
  "py_float v = (case v of
       PFloat f \<Rightarrow> Inr f
     | PInt i \<Rightarrow> float_of_int i
     | PBool b \<Rightarrow> Inr (Fin (if b then 1 else 0))
     | PStr s \<Rightarrow> float_of_str s
     | _ \<Rightarrow> Inl TypeError)"

text \<open>The truth value of \<^verbatim>\<open>v\<close> in a condition.\<close>

definition truthy :: "pyval \<Rightarrow> bool" where
  "truthy v = (case v of
       PNone \<Rightarrow> False
     | PBool b \<Rightarrow> b
     | PInt i \<Rightarrow> i \<noteq> 0
     | PFloat f \<Rightarrow> \<not> fzero f
     | PStr s \<Rightarrow> s \<noteq> []
     | PList xs \<Rightarrow> xs \<noteq> []
     | PDict kvs \<Rightarrow> kvs \<noteq> [])"

text \<open>\<^verbatim>\<open>v.get(k, d)\<close>: only a dict has the method.\<close>

definition dict_get :: "pyval \<Rightarrow> string \<Rightarrow> pyval \<Rightarrow> exn + pyval" where
  "dict_get v k d = (case v of
       PDict kvs \<Rightarrow> Inr (case map_of kvs k of Some x \<Rightarrow> x | None \<Rightarrow> d)
     | _ \<Rightarrow> Inl AttributeError)"

text \<open>\<^verbatim>\<open>v[0]\<close>. The keys of a dict are strings, so \<^verbatim>\<open>0\<close> is never one of them.\<close>

definition index0 :: "pyval \<Rightarrow> exn + pyval" where
  "index0 v = (case v of
       PList xs \<Rightarrow> (case xs of [] \<Rightarrow> Inl IndexError | x # _ \<Rightarrow> Inr x)
     | PStr s \<Rightarrow> (case s of [] \<Rightarrow> Inl IndexError | c # _ \<Rightarrow> Inr (PStr [c]))
     | PDict kvs \<Rightarrow> Inl KeyError
     | _ \<Rightarrow> Inl TypeError)"

text \<open>\<^verbatim>\<open>len(v)\<close>.\<close>

definition py_len :: "pyval \<Rightarrow> exn + nat" where
  "py_len v = (case v of
       PList xs \<Rightarrow> Inr (length xs)
     | PStr s \<Rightarrow> Inr (length s)
     | PDict kvs \<Rightarrow> Inr (length kvs)
     | _ \<Rightarrow> Inl TypeError)"

text \<open>
  The elements that iterating over \<^verbatim>\<open>v\<close> yields: of a list its elements, of a string
  its characters, of a dict its keys.
\<close>

definition py_iter :: "pyval \<Rightarrow> exn + pyval list" where
  "py_iter v = (case v of
       PList xs \<Rightarrow> Inr xs
     | PStr s \<Rightarrow> Inr (map (\<lambda>c. PStr [c]) s)
     | PDict kvs \<Rightarrow> Inr (map (\<lambda>kv. PStr (fst kv)) kvs)
     | _ \<Rightarrow> Inl TypeError)"

text \<open>\<^verbatim>\<open>a, b = v\<close>.\<close>

definition unpack2 :: "pyval \<Rightarrow> exn + pyval \<times> pyval" where
  "unpack2 v = (case py_iter v of
       Inl e \<Rightarrow> Inl e
     | Inr xs \<Rightarrow> (case xs of [a, b] \<Rightarrow> Inr (a, b) | _ \<Rightarrow> Inl ValueError))"

text \<open>
  \<^verbatim>\<open>i <= v\<close> and \<^verbatim>\<open>v <= i\<close> for an integer literal \<^verbatim>\<open>i\<close>: exact on numbers, false
  on NaN, \<^verbatim>\<open>TypeError\<close> on anything else.
\<close>

definition le_int_float :: "int \<Rightarrow> pyfloat \<Rightarrow> bool" where
  "le_int_float i f = (case f of
       Fin q \<Rightarrow> of_int i \<le> q
     | NegZero \<Rightarrow> i \<le> 0
     | PosInf \<Rightarrow> True
     | _ \<Rightarrow> False)"

definition le_float_int :: "pyfloat \<Rightarrow> int \<Rightarrow> bool" where
  "le_float_int f i = (case f of
       Fin q \<Rightarrow> q \<le> of_int i
     | NegZero \<Rightarrow> 0 \<le> i
     | NegInf \<Rightarrow> True
     | _ \<Rightarrow> False)"

definition le_int_val :: "int \<Rightarrow> pyval \<Rightarrow> exn + bool" where
  "le_int_val i v = (case v of
       PInt j \<Rightarrow> Inr (i \<le> j)
     | PBool b \<Rightarrow> Inr (i \<le> (if b then 1 else 0))
     | PFloat f \<Rightarrow> Inr (le_int_float i f)
     | _ \<Rightarrow> Inl TypeError)"

definition le_val_int :: "pyval \<Rightarrow> int \<Rightarrow> exn + bool" where
  "le_val_int v i = (case v of
       PInt j \<Rightarrow> Inr (j \<le> i)
     | PBool b \<Rightarrow> Inr ((if b then 1 else 0) \<le> i)
     | PFloat f \<Rightarrow> Inr (le_float_int f i)
     | _ \<Rightarrow> Inl TypeError)"

text \<open>
  \<^verbatim>\<open>str(v)\<close>, as an f-string field without a format renders it. The parameter \<open>repr\<close>
  stands for the runtime's rendering of floats, lists and dicts.
\<close>

definition py_str :: "(pyval \<Rightarrow> string) \<Rightarrow> pyval \<Rightarrow> string" where
  "py_str repr v = (case v of
       PStr s \<Rightarrow> s
     | PNone \<Rightarrow> ''None''
     | PBool b \<Rightarrow> (if b then ''True'' else ''False'')
     | PInt i \<Rightarrow> str_int i
     | _ \<Rightarrow> repr v)"

definition is_dict :: "pyval \<Rightarrow> bool" where
  "is_dict v = (case v of PDict _ \<Rightarrow> True | _ \<Rightarrow> False)"

section \<open>The network and the terminal\<close>

text \<open>
  A call of \<^verbatim>\<open>requests\<close> either raises a \<^verbatim>\<open>RequestException\<close>, with its text, or
  returns a response: the status code, the body as text, and what \<^verbatim>\<open>r.json()\<close>
  returns, \<open>None\<close> when it raises. The network is a function from the requests made
  so far and the request made now to the outcome. The state of a run is the list of
  requests made and the strings written to standard output, one per \<^verbatim>\<open>print\<close> call
  or prompt.
\<close>

record response =
  status_code :: int
  resp_text :: string
  resp_json :: "pyval option"

datatype http_result = RequestException string | Response response

datatype request =
    Get string "(string \<times> pyval) list"
  | Post string "(string \<times> string) list" pyval

type_synonym network = "request list \<Rightarrow> request \<Rightarrow> http_result"

record io =
  reqs :: "request list"
  out :: "string list"

definition print :: "string \<Rightarrow> io \<Rightarrow> io" where
  "print s w = w\<lparr>out := out w @ [s]\<rparr>"

definition send :: "network \<Rightarrow> request \<Rightarrow> io \<Rightarrow> http_result \<times> io" where
  "send net req w = (net (reqs w) req, w\<lparr>reqs := reqs w @ [req]\<rparr>)"

definition DIRECTIONS_API :: string where
  "DIRECTIONS_API = ''https://api.openrouteservice.org/v2/directions/driving-car''"

definition GEOCODE_API :: string where
  "GEOCODE_API = ''https://api.openrouteservice.org/geocode/search''"

text \<open>
  The two requests of the program: the URL, then the query parameters, or the headers
  and the JSON body.
\<close>

definition geocode_request :: "string \<Rightarrow> string \<Rightarrow> request" where
  "geocode_request address key =
     Get GEOCODE_API [(''api_key'', PStr key), (''text'', PStr address), (''size'', PInt 1)]"

definition directions_request :: "pyval \<Rightarrow> pyval \<Rightarrow> string \<Rightarrow> request" where
  "directions_request orig_coords dest_coords key =
     Post DIRECTIONS_API
       [(''Authorization'', key), (''Content-Type'', ''application/json'')]
       (PDict [(''coordinates'', PList [orig_coords, dest_coords])])"

definition quoted :: "string \<Rightarrow> string" where
  "quoted s = [CHR 0x27] @ s @ [CHR 0x27]"

section \<open>The helpers\<close>

definition meters_to_km :: "pyval \<Rightarrow> pyfloat option" where
  "meters_to_km m = (case py_float m of
       Inl e \<Rightarrow> None
     | Inr f \<Rightarrow> (case fdiv f f1000 of Inl e \<Rightarrow> None | Inr q \<Rightarrow> Some q))"

definition meters_to_miles :: "pyval \<Rightarrow> pyfloat option" where
  "meters_to_miles m = (case py_float m of
       Inl e \<Rightarrow> None
     | Inr f \<Rightarrow> (case fdiv f f1609_344 of Inl e \<Rightarrow> None | Inr q \<Rightarrow> Some q))"

definition seconds_to_hms :: "pyval \<Rightarrow> string" where
  "seconds_to_hms s = (case py_float s of
       Inl e \<Rightarrow> ''N/A''
     | Inr f \<Rightarrow> (case round_float f of
         Inl e \<Rightarrow> ''N/A''
       | Inr s' \<Rightarrow>
           (let h = s' div 3600; m = (s' mod 3600) div 60; sec = s' mod 60
            in fmt_02d h @ '':'' @ fmt_02d m @ '':'' @ fmt_02d sec)))"

text \<open>
  \<open>getenv\<close> is the environment, \<open>entry\<close> the line typed at the hidden prompt of
  \<^verbatim>\<open>getpass\<close>, which does not write to standard output. \<^verbatim>\<open>sys.exit(1)\<close> raises
  \<^verbatim>\<open>SystemExit\<close>.
\<close>

definition read_api_key :: "(string \<Rightarrow> string option) \<Rightarrow> string \<Rightarrow> io \<Rightarrow> (exn + string) \<times> io" where
  "read_api_key getenv entry w =
     (let key = getenv ''ORS_API_KEY'' in
      if key \<noteq> None \<and> the key \<noteq> [] then (Inr (strip (the key)), w)
      else
        (let w1 = print ''No ORS_API_KEY in environment.'' w; key' = strip entry in
         if key' = [] then (Inl (SystemExit 1), print ''Error: API key is required.'' w1)
         else (Inr key', w1)))"

text \<open>
  \<^verbatim>\<open>ask_float\<close> reads lines of standard input until one is blank (when allowed) or
  converts; \<^verbatim>\<open>input\<close> raises \<^verbatim>\<open>EOFError\<close> when no line is left. The result carries
  the lines not yet read.
\<close>

fun ask_float ::
  "string \<Rightarrow> pyfloat option \<Rightarrow> bool \<Rightarrow> string list \<Rightarrow> io \<Rightarrow> (exn + pyfloat option) \<times> string list \<times> io" where
  "ask_float prompt dflt allow_blank [] w = (Inl EOFError, [], print prompt w)"
| "ask_float prompt dflt allow_blank (l # ls) w =
     (let w1 = print prompt w; val = strip l in
      if allow_blank \<and> val = [] then (Inr dflt, ls, w1)
      else (case float_of_str val of
              Inr f \<Rightarrow> (Inr (Some f), ls, w1)
            | Inl e \<Rightarrow>
                ask_float prompt dflt allow_blank ls
                  (print ''Please enter a number (e.g., 8.5).'' w1)))"

section \<open>The geocoder client\<close>

text \<open>
  The condition \<^verbatim>\<open>-180 <= lon <= 180 and -90 <= lat <= 90\<close>, evaluated from left to
  right and no further than the first comparison that is false.
\<close>

definition in_range :: "pyval \<Rightarrow> pyval \<Rightarrow> exn + bool" where
  "in_range lon lat =
     (case le_int_val (- 180) lon of Inl e \<Rightarrow> Inl e | Inr a \<Rightarrow>
        if \<not> a then Inr False else
     (case le_val_int lon 180 of Inl e \<Rightarrow> Inl e | Inr b \<Rightarrow>
        if \<not> b then Inr False else
     (case le_int_val (- 90) lat of Inl e \<Rightarrow> Inl e | Inr c \<Rightarrow>
        if \<not> c then Inr False else le_val_int lat 90)))"

definition geocode_address :: "network \<Rightarrow> string \<Rightarrow> string \<Rightarrow> io \<Rightarrow> (exn + pyval) \<times> io" where
  "geocode_address net address key w =
     (case send net (geocode_request address key) w of (res, w1) \<Rightarrow>
     (case res of
        RequestException e \<Rightarrow>
          (Inr PNone, print (''Network error while geocoding '' @ quoted address @ '': '' @ e) w1)
      | Response r \<Rightarrow>
          if status_code r \<noteq> 200 then
            (Inr PNone, print (''Error '' @ str_int (status_code r) @ '' geocoding ''
                                @ quoted address @ '': '' @ take 200 (resp_text r)) w1)
          else
     (case resp_json r of None \<Rightarrow> (Inl JSONDecodeError, w1) | Some data \<Rightarrow>
     (case dict_get data ''features'' (PList []) of Inl e \<Rightarrow> (Inl e, w1) | Inr feats \<Rightarrow>
          if \<not> truthy feats then
            (Inr PNone, print (''Error: No results found for address '' @ quoted address @ ''.'') w1)
          else
     (case index0 feats of Inl e \<Rightarrow> (Inl e, w1) | Inr feat \<Rightarrow>
     (case dict_get feat ''geometry'' (PDict []) of Inl e \<Rightarrow> (Inl e, w1) | Inr geometry \<Rightarrow>
     (case dict_get geometry ''coordinates'' PNone of Inl e \<Rightarrow> (Inl e, w1) | Inr coords \<Rightarrow>
          if \<not> truthy coords then
            (Inr PNone, print (''Error: Invalid coordinates for '' @ quoted address @ ''.'') w1)
          else
     (case py_len coords of Inl e \<Rightarrow> (Inl e, w1) | Inr n \<Rightarrow>
          if n \<noteq> 2 then
            (Inr PNone, print (''Error: Invalid coordinates for '' @ quoted address @ ''.'') w1)
          else
     (case unpack2 coords of Inl e \<Rightarrow> (Inl e, w1) | Inr (lon, lat) \<Rightarrow>
     (case in_range lon lat of Inl e \<Rightarrow> (Inl e, w1) | Inr ok \<Rightarrow>
          if \<not> ok then
            (Inr PNone, print (''Error: Out-of-range coordinates for '' @ quoted address @ ''.'') w1)
          else (Inr (PList [lon, lat]), w1)))))))))))"

section \<open>The directions client\<close>

text \<open>
  The result is the pair \<^verbatim>\<open>(data, error)\<close> of the source; \<^verbatim>\<open>None\<close> is \<open>PNone\<close>,
  also when it is the parsed body \<^verbatim>\<open>null\<close>. The function catches what
  \<^verbatim>\<open>requests.post\<close> and \<^verbatim>\<open>r.json()\<close> raise, so it raises nothing.
\<close>

definition fetch_route ::
  "(pyval \<Rightarrow> string) \<Rightarrow> network \<Rightarrow> pyval \<Rightarrow> pyval \<Rightarrow> string \<Rightarrow> io \<Rightarrow> (pyval \<times> pyval) \<times> io" where
  "fetch_route repr net orig_coords dest_coords key w =
     (case send net (directions_request orig_coords dest_coords key) w of (res, w1) \<Rightarrow>
     (case res of
        RequestException e \<Rightarrow>
          ((PNone, PNone), print (''Network error calling directions API: '' @ e) w1)
      | Response r \<Rightarrow>
          (let data = (case resp_json r of
                         Some d \<Rightarrow> d
                       | None \<Rightarrow> PDict [(''raw'', PStr (resp_text r))])
           in if status_code r = 200 then ((data, PNone), w1)
              else
                (let err = (if is_dict data then data
                            else PDict [(''error'', PStr (py_str repr data))])
                 in ((PNone, PDict [(''status'', PInt (status_code r)), (''message'', err)]), w1)))))"

section \<open>The presenter\<close>

definition rule_line :: string where
  "rule_line = ''=============================================''"

text \<open>
  The loop over \<^verbatim>\<open>enumerate(steps, start=1)\<close>: one line per step, and the exception of
  the first step that is not a dict.
\<close>

fun print_steps :: "(pyval \<Rightarrow> string) \<Rightarrow> string \<Rightarrow> nat \<Rightarrow> pyval list \<Rightarrow> io \<Rightarrow> (exn + unit) \<times> io" where
  "print_steps repr unit_system idx [] w = (Inr (), w)"
| "print_steps repr unit_system idx (step # steps) w =
     (case dict_get step ''instruction'' (PStr ''N/A'') of Inl e \<Rightarrow> (Inl e, w) | Inr instruction \<Rightarrow>
     (case dict_get step ''distance'' (PInt 0) of Inl e \<Rightarrow> (Inl e, w) | Inr step_m \<Rightarrow>
        (let step_dist = (if unit_system = ''imperial'' then meters_to_miles step_m
                          else meters_to_km step_m);
             step_label = (if unit_system = ''imperial'' then ''mi'' else ''km'')
         in print_steps repr unit_system (Suc idx) steps
              (case step_dist of
                 None \<Rightarrow> print (str_nat idx @ ''. '' @ py_str repr instruction) w
               | Some d \<Rightarrow> print (str_nat idx @ ''. '' @ py_str repr instruction
                                   @ '' ('' @ fmt_fixed 2 d @ '' '' @ step_label @ '')'') w))))"

text \<open>The line of the fuel estimate.\<close>

definition fuel_line :: "pyfloat \<Rightarrow> pyfloat \<Rightarrow> string" where
  "fuel_line fuel_used_l l_per_100km =
     ''Estimated Fuel Used: '' @ fmt_fixed 2 fuel_used_l @ '' L (at ''
       @ fmt_fixed 1 l_per_100km @ '' L/100km)''"

text \<open>
  The last part of \<^verbatim>\<open>print_route\<close>, from the lookup of the steps to the closing rule:
  the steps of the segment, one line each, or the line that says there are none.
\<close>

definition print_directions :: "(pyval \<Rightarrow> string) \<Rightarrow> string \<Rightarrow> pyval \<Rightarrow> io \<Rightarrow> (exn + unit) \<times> io" where
  "print_directions repr unit_system segment w =
     (case dict_get segment ''steps'' (PList []) of Inl e \<Rightarrow> (Inl e, w) | Inr steps \<Rightarrow>
     (case (if truthy steps then
              (case py_iter steps of
                 Inl e \<Rightarrow> (Inl e, w)
               | Inr xs \<Rightarrow> print_steps repr unit_system 1 xs w)
            else (Inr (), print ''No step-by-step directions available.'' w)) of
        (Inl e, w') \<Rightarrow> (Inl e, w')
      | (Inr u, w') \<Rightarrow> (Inr (), print (rule_line @ [CHR 0x0A]) w')))"

definition print_route ::
  "(pyval \<Rightarrow> string) \<Rightarrow> string \<Rightarrow> string \<Rightarrow> pyval \<Rightarrow> string \<Rightarrow> pyfloat option \<Rightarrow> io \<Rightarrow> (exn + unit) \<times> io" where
  "print_route repr orig dest data unit_system l_per_100km w =
     (case dict_get data ''routes'' (PList []) of Inl e \<Rightarrow> (Inl e, w) | Inr routes \<Rightarrow>
        if \<not> truthy routes then (Inr (), print ''Error: No routes found in the response.'' w)
        else
     (case index0 routes of Inl e \<Rightarrow> (Inl e, w) | Inr route \<Rightarrow>
     (case dict_get route ''segments'' (PList []) of Inl e \<Rightarrow> (Inl e, w) | Inr segments \<Rightarrow>
        if \<not> truthy segments then (Inr (), print ''Error: No segments found in the route.'' w)
        else
     (case index0 segments of Inl e \<Rightarrow> (Inl e, w) | Inr segment \<Rightarrow>
     (case dict_get segment ''duration'' PNone of Inl e \<Rightarrow> (Inl e, w) | Inr duration_s \<Rightarrow>
     (case dict_get segment ''distance'' PNone of Inl e \<Rightarrow> (Inl e, w) | Inr distance_m \<Rightarrow>
        (let w1 = print (''Directions from '' @ orig @ '' to '' @ dest)
                    (print rule_line
                      (print ([CHR 0x0A] @ ''API Status: Successful route call.'' @ [CHR 0x0A]) w));
             dur_str = (if duration_s \<noteq> PNone then seconds_to_hms duration_s else ''N/A'');
             dist_val = (if unit_system = ''imperial'' then meters_to_miles distance_m
                         else meters_to_km distance_m);
             dist_label = (if unit_system = ''imperial'' then ''miles'' else ''km'');
             dist_str = (case dist_val of
                           None \<Rightarrow> ''N/A''
                         | Some d \<Rightarrow> fmt_fixed 2 d @ '' '' @ dist_label);
             w2 = print (''Distance: '' @ dist_str) (print (''Trip Duration: '' @ dur_str) w1)
         in
     (case (if l_per_100km \<noteq> None \<and> dist_val \<noteq> None \<and> unit_system = ''metric'' then
              (case fdiv (the l_per_100km) f100 of
                 Inl e \<Rightarrow> (Inl e, w2)
               | Inr r \<Rightarrow>
                   (Inr (), print (fuel_line (fmul (the dist_val) r) (the l_per_100km)) w2))
            else (Inr (), w2)) of
        (Inl e, w3) \<Rightarrow> (Inl e, w3)
      | (Inr u, w3) \<Rightarrow> print_directions repr unit_system segment (print rule_line w3)))))))))"

section \<open>The interactive loop\<close>

text \<open>\<^verbatim>\<open>status == i\<close> for an integer literal \<^verbatim>\<open>i\<close>.\<close>

definition eq_int :: "pyval \<Rightarrow> int \<Rightarrow> bool" where
  "eq_int v i = (case v of
       PInt j \<Rightarrow> j = i
     | PBool b \<Rightarrow> (if b then 1 else 0) = i
     | PFloat f \<Rightarrow> f = Fin (of_int i) \<or> (f = NegZero \<and> i = 0)
     | _ \<Rightarrow> False)"

definition is_quit :: "string \<Rightarrow> bool" where
  "is_quit s = (lower s = ''quit'' \<or> lower s = ''q'')"

text \<open>The message printed for a structured error of the directions client.\<close>

definition error_message :: "(pyval \<Rightarrow> string) \<Rightarrow> pyval \<Rightarrow> pyval \<Rightarrow> string" where
  "error_message repr status message =
     (if eq_int status 401 then ''Error 401: Unauthorized. Check your API key (ORS_API_KEY).''
      else if eq_int status 403 then
        ''Error 403: Forbidden. Your API key may not have access to this endpoint.''
      else if eq_int status 429 then
        ''Error 429: Rate limit exceeded. Please wait and try again later.''
      else if eq_int status 400 then
        ''Error 400: Bad request. Check coordinates or request body.''
      else ''Error '' @ py_str repr status @ '': '' @ py_str repr message)"

text \<open>
  The \<^verbatim>\<open>while True\<close> loop of \<^verbatim>\<open>main\<close>, over the lines of standard input still to
  be read. Every iteration reads at least one line, and \<^verbatim>\<open>input\<close> raises
  \<^verbatim>\<open>EOFError\<close> when none is left, so the loop ends on every finite input. The result
  is \<open>Inr ()\<close> when the loop is left by \<^verbatim>\<open>break\<close>.
\<close>

fun main_loop ::
  "(pyval \<Rightarrow> string) \<Rightarrow> network \<Rightarrow> string \<Rightarrow> string \<Rightarrow> pyfloat option \<Rightarrow> string list \<Rightarrow> io
     \<Rightarrow> (exn + unit) \<times> string list \<times> io" where
  "main_loop repr net key unit_system l_per_100km [] w =
     (Inl EOFError, [], print ([CHR 0x0A] @ ''Starting Location: '') w)"
| "main_loop repr net key unit_system l_per_100km (l1 # rest) w =
     (let w1 = print ([CHR 0x0A] @ ''Starting Location: '') w; orig = strip l1 in
      if is_quit orig then (Inr (), rest, w1)
      else
     (case rest of
        [] \<Rightarrow> (Inl EOFError, [], print ''Destination: '' w1)
      | l2 # rest' \<Rightarrow>
     (let w2 = print ''Destination: '' w1; dest = strip l2 in
      if is_quit dest then (Inr (), rest', w2)
      else
     (case geocode_address net orig key w2 of
        (Inl e, w3) \<Rightarrow> (Inl e, rest', w3)
      | (Inr orig_coords, w3) \<Rightarrow>
     (case geocode_address net dest key w3 of
        (Inl e, w4) \<Rightarrow> (Inl e, rest', w4)
      | (Inr dest_coords, w4) \<Rightarrow>
          if \<not> truthy orig_coords \<or> \<not> truthy dest_coords then
            main_loop repr net key unit_system l_per_100km rest'
              (print (''Unable to geocode one or both addresses. Please try again.'' @ [CHR 0x0A]) w4)
          else
     (case fetch_route repr net orig_coords dest_coords key w4 of
        ((data, error), w5) \<Rightarrow>
          if truthy error then
     (case dict_get error ''status'' PNone of Inl e \<Rightarrow> (Inl e, rest', w5) | Inr status \<Rightarrow>
     (case dict_get error ''message'' PNone of Inl e \<Rightarrow> (Inl e, rest', w5) | Inr message \<Rightarrow>
            main_loop repr net key unit_system l_per_100km rest'
              (print (error_message repr status message) w5)))
          else
     (case print_route repr orig dest data unit_system l_per_100km w5 of
        (Inl e, w6) \<Rightarrow> (Inl e, rest', w6)
      | (Inr u, w6) \<Rightarrow> main_loop repr net key unit_system l_per_100km rest' w6)))))))"

text \<open>
  \<^verbatim>\<open>main\<close>. The interrupt handler around it is outside the model: a
  \<^verbatim>\<open>KeyboardInterrupt\<close> is a signal, not an input. The farewell is printed without its
  closing emoji, which is not a character below 256.
\<close>

definition main ::
  "(pyval \<Rightarrow> string) \<Rightarrow> network \<Rightarrow> (string \<Rightarrow> string option) \<Rightarrow> string \<Rightarrow> string list \<Rightarrow> io
     \<Rightarrow> (exn + unit) \<times> string list \<times> io" where
  "main repr net getenv entry stdin w =
     (let w1 = print (''Type '' @ quoted ''quit'' @ '' or '' @ quoted ''q''
                        @ '' at any prompt to exit.'' @ [CHR 0x0A])
                 (print ''=== OpenRouteService Directions (JSON Parsing) ==='' w) in
     (case read_api_key getenv entry w1 of
        (Inl e, w2) \<Rightarrow> (Inl e, stdin, w2)
      | (Inr key, w2) \<Rightarrow>
     (let w3 = print ''Units? [1] Metric (km)  [2] Imperial (miles) [default: 1]: '' w2 in
     (case stdin of
        [] \<Rightarrow> (Inl EOFError, [], w3)
      | l # ls \<Rightarrow>
     (let unit_choice = strip l;
          unit_system = (if unit_choice = ''2'' then ''imperial'' else ''metric'') in
     (case (if unit_system = ''metric'' then
              ask_float ''Optional: Enter fuel consumption in L/100km (blank to skip): ''
                None True ls w3
            else (Inr None, ls, w3)) of
        (Inl e, ls', w4) \<Rightarrow> (Inl e, ls', w4)
      | (Inr l_per_100km, ls', w4) \<Rightarrow>
     (case main_loop repr net key unit_system l_per_100km ls' w4 of
        (Inl e, ls'', w5) \<Rightarrow> (Inl e, ls'', w5)
      | (Inr u, ls'', w5) \<Rightarrow> (Inr (), ls'', print ([CHR 0x0A] @ ''Bye! '') w5))))))))"

section \<open>Notions used in the statements\<close>

text \<open>The number that a value denotes, when it is a finite number.\<close>

definition num_value :: "pyval \<Rightarrow> real option" where
  "num_value v = (case v of
       PInt i \<Rightarrow> Some (of_int i)
     | PBool b \<Rightarrow> Some (if b then 1 else 0)
     | PFloat f \<Rightarrow> (case f of Fin q \<Rightarrow> Some q | NegZero \<Rightarrow> Some 0 | _ \<Rightarrow> None)
     | _ \<Rightarrow> None)"

text \<open>
  A line of the fuel estimate is recognised by its first 21 characters. The lines that a
  call printed are those added to the output.
\<close>

definition is_fuel_line :: "string \<Rightarrow> bool" where
  "is_fuel_line s = (take 21 s = ''Estimated Fuel Used: '')"

definition printed :: "io \<Rightarrow> io \<Rightarrow> string list" where
  "printed w w' = drop (length (out w)) (out w')"

subsection \<open>Sample inputs\<close>

text \<open>
  A geocoding response with status 200 and the given feature list, a feature with the
  given coordinates, the empty initial state, and a network that resolves every address
  to one place and answers every directions request with status 401.
\<close>

definition geo_response :: "pyval \<Rightarrow> response" where
  "geo_response feats =
     \<lparr>status_code = 200, resp_text = ''...'', resp_json = Some (PDict [(''features'', feats)])\<rparr>"

definition feature :: "pyval \<Rightarrow> pyval" where
  "feature coords = PDict [(''geometry'', PDict [(''coordinates'', coords)])]"

definition w0 :: io where
  "w0 = \<lparr>reqs = [], out = []\<rparr>"

definition net_401 :: network where
  "net_401 = (\<lambda>h q. case q of
       Get u ps \<Rightarrow>
         Response (geo_response (PList [feature (PList [PFloat (Fin 10.75), PFloat (Fin 59.5)])]))
     | Post u hs b \<Rightarrow> Response \<lparr>status_code = 401, resp_text = ''no'', resp_json = None\<rparr>)"

text \<open>A payload whose only segment has a distance of 10000 m and a duration of 1800 s.\<close>

definition sample_segment :: "(string \<times> pyval) list" where
  "sample_segment = [(''distance'', PInt 10000), (''duration'', PInt 1800)]"

definition sample_route :: pyval where
  "sample_route = PDict [(''routes'', PList [PDict [(''segments'', PList [PDict sample_segment])]])]"

section \<open>Properties\<close>

subsection \<open>The state\<close>

lemma reqs_print [simp]: "reqs (print s w) = reqs w"
  by (simp add: print_def)

lemma out_print [simp]: "out (print s w) = out w @ [s]"
  by (simp add: print_def)

subsection \<open>Rounding\<close>

text \<open>
  \<^const>\<open>rne\<close> yields a nearest integer, the even one at a tie, an integer below \<open>2\<^sup>5\<^sup>3\<close> in magnitude is a
  double, and the values of the float expressions that the examples need.
\<close>

lemma rne_of_int [simp]: "rne (of_int k) = k"
  by (simp add: rne_def Let_def)

lemma rne_nearest: "\<bar>x - of_int (rne x)\<bar> \<le> 1 / 2"
proof -
  have "of_int \<lfloor>x\<rfloor> \<le> x" "x < of_int \<lfloor>x\<rfloor> + 1" by linarith+
  then show ?thesis by (auto simp: rne_def Let_def)
qed

lemma rne_tie_even: "x - of_int \<lfloor>x\<rfloor> = 1 / 2 \<Longrightarrow> even (rne x)"
  by (simp add: rne_def Let_def)

lemma bitlen_le: "n < 2 ^ k \<Longrightarrow> bitlen n \<le> k"
proof (induction k arbitrary: n)
  case 0
  then show ?case by (simp add: bitlen.simps)
next
  case (Suc k)
  show ?case
  proof (cases "n = 0")
    case True
    then show ?thesis by (simp add: bitlen.simps)
  next
    case False
    from Suc.prems have "n div 2 < 2 ^ k" by simp
    from Suc.IH [OF this] False show ?thesis
      by (subst bitlen.simps) simp
  qed
qed

lemma pow2_neg: "e \<le> 0 \<Longrightarrow> pow2 e = 1 / 2 ^ nat (- e)"
  by (auto simp: pow2_def)

lemma round53_int_exact:
  assumes "\<bar>i\<bar> < 2 ^ 53"
  shows "round53 (of_int i) = of_int i"
proof (cases "i = 0")
  case True
  then show ?thesis by (simp add: round53_def)
next
  case False
  define a where "a = \<bar>i\<bar>"
  have a: "1 \<le> a" "a < 2 ^ 53" using False assms by (auto simp: a_def)
  have fl: "\<lfloor>\<bar>real_of_int i\<bar>\<rfloor> = a"
    by (simp add: a_def flip: of_int_abs)
  have "nat a < 2 ^ 53" using a by (simp add: nat_less_iff)
  then have "bitlen (nat a) \<le> 53" by (rule bitlen_le)
  moreover have "1 \<le> \<bar>real_of_int i\<bar>" using a by (simp add: a_def flip: of_int_abs)
  ultimately have il: "ilog2 \<bar>real_of_int i\<bar> - 52 \<le> 0"
    by (simp add: ilog2_def fl)
  define e where "e = max (ilog2 \<bar>real_of_int i\<bar> - 52) (- 1074)"
  have e: "e \<le> 0" using il by (simp add: e_def)
  have p: "pow2 e = 1 / 2 ^ nat (- e)" using e by (rule pow2_neg)
  have "\<bar>real_of_int i\<bar> / pow2 e = of_int (a * 2 ^ nat (- e))"
    by (simp add: p a_def)
  then have m: "rne (\<bar>real_of_int i\<bar> / pow2 e) = a * 2 ^ nat (- e)"
    by (simp only: rne_of_int)
  have "round53 (of_int i) = sgn (real_of_int i) * of_int (a * 2 ^ nat (- e)) * pow2 e"
    using False by (simp add: round53_def Let_def flip: e_def m)
  also have "\<dots> = sgn (real_of_int i) * of_int a"
    by (simp add: p)
  also have "\<dots> = of_int i"
    by (simp add: a_def sgn_if)
  finally show ?thesis .
qed

lemma float_of_int_exact:
  assumes "\<bar>i\<bar> < 2 ^ 53"
  shows "float_of_int i = Inr (Fin (of_int i))"
proof -
  have "(2::int) ^ 53 \<le> 2 ^ 1024 - 2 ^ 970" by simp
  with assms have "\<not> 2 ^ 1024 - 2 ^ 970 \<le> \<bar>i\<bar>" by linarith
  then show ?thesis by (simp add: float_of_int_def round53_int_exact [OF assms])
qed

lemma round53_eval:
  "x \<noteq> 0 \<Longrightarrow> ilog2 \<bar>x\<bar> = k \<Longrightarrow> max (k - 52) (- 1074) = e \<Longrightarrow>
   rne (\<bar>x\<bar> / pow2 e) = m \<Longrightarrow> round53 x = sgn x * of_int m * pow2 e"
  by (simp add: round53_def Let_def)

lemma fl_Fin:
  "round53 x = r \<Longrightarrow> r \<noteq> 0 \<Longrightarrow> r < 2 ^ 1024 \<Longrightarrow> - (2 ^ 1024) < r \<Longrightarrow> fl neg x = Fin r"
  by (simp add: fl_def Let_def)

lemma fl_small_int:
  assumes "\<bar>k\<bar> < 2 ^ 53" and "k \<noteq> 0"
  shows "fl neg (of_int k) = Fin (of_int k)"
proof -
  have r: "round53 (of_int k) = of_int k" using assms(1) by (rule round53_int_exact)
  have "real_of_int \<bar>k\<bar> < 2 ^ 53" using assms(1) by (metis of_int_less_numeral_power_cancel_iff)
  moreover have "(2::real) ^ 53 < 2 ^ 1024" by simp
  ultimately have "\<bar>real_of_int k\<bar> < 2 ^ 1024" by simp
  then have "real_of_int k < 2 ^ 1024" "- (2 ^ 1024) < real_of_int k" by linarith+
  with r assms(2) show ?thesis by (intro fl_Fin) simp_all
qed

lemma fl_zero: "fl False 0 = Fin 0"
  by (simp add: fl_def round53_def)

lemma py_float_small_int:
  "\<bar>i\<bar> < 2 ^ 53 \<Longrightarrow> py_float (PInt i) = Inr (Fin (of_int i))"
  by (simp add: py_float_def float_of_int_exact)

lemma fdiv_Fin_pos:
  "0 < c \<Longrightarrow> fdiv (Fin x) (Fin c) = Inr (fl (x < 0) (x / c))"
  by (simp add: fdiv_def fzero_def finf_def fneg_def fval_def)

lemma fdiv_total_pos:
  "0 < c \<Longrightarrow> \<exists>q. fdiv f (Fin c) = Inr q"
  by (simp add: fdiv_def fzero_def)

lemma fdiv_f100: "\<exists>r. fdiv x f100 = Inr r"
  using fdiv_total_pos [of 100 x] by (simp add: f100_def)

lemma round53_8_100: "round53 (2 / 25) = 5764607523034235 / 72057594037927936"
proof -
  have k: "ilog2 \<bar>2 / 25 :: real\<bar> = - 4"
    by (simp add: ilog2_def bitlen.simps)
  have m: "rne (\<bar>2 / 25 :: real\<bar> / pow2 (- 56)) = 5764607523034235"
    by (simp add: rne_def pow2_def Let_def)
  have "round53 (2 / 25) = sgn (2 / 25 :: real) * of_int 5764607523034235 * pow2 (- 56)"
    by (rule round53_eval [OF _ k _ m]) simp_all
  then show ?thesis by (simp add: pow2_def)
qed

lemma fdiv_8_100: "fdiv (Fin 8) f100 = Inr (Fin (5764607523034235 / 72057594037927936))"
proof -
  have "fl False (2 / 25) = Fin (5764607523034235 / 72057594037927936)"
    by (rule fl_Fin [OF round53_8_100]) simp_all
  then show ?thesis
    by (simp add: fdiv_def f100_def fzero_def finf_def fneg_def fval_def)
qed

lemma round53_0_8:
  "round53 (10 * (5764607523034235 / 72057594037927936)) = 3602879701896397 / 4503599627370496"
proof -
  have k: "ilog2 \<bar>10 * (5764607523034235 / 72057594037927936) :: real\<bar> = - 1"
    by (simp add: ilog2_def bitlen.simps)
  have m: "rne (\<bar>10 * (5764607523034235 / 72057594037927936) :: real\<bar> / pow2 (- 53))
      = 7205759403792794"
    by (simp add: rne_def pow2_def Let_def)
  have "round53 (10 * (5764607523034235 / 72057594037927936))
      = sgn (10 * (5764607523034235 / 72057594037927936) :: real)
          * of_int 7205759403792794 * pow2 (- 53)"
    by (rule round53_eval [OF _ k _ m]) simp_all
  then show ?thesis by (simp add: pow2_def)
qed

lemma fmul_10_008:
  "fmul (Fin 10) (Fin (5764607523034235 / 72057594037927936))
     = Fin (3602879701896397 / 4503599627370496)"
proof -
  have "fl False (10 * (5764607523034235 / 72057594037927936))
      = Fin (3602879701896397 / 4503599627370496)"
    by (rule fl_Fin [OF round53_0_8]) simp_all
  then show ?thesis
    by (simp add: fmul_def finf_def fneg_def fval_def)
qed

lemma f1609_344_value: "f1609_344 = Fin (1769492441091539 / 1099511627776)"
proof -
  have k: "ilog2 \<bar>1609344 / 1000 :: real\<bar> = 10"
    by (simp add: ilog2_def bitlen.simps)
  have m: "rne (\<bar>1609344 / 1000 :: real\<bar> / pow2 (- 42)) = 7077969764366156"
    by (simp add: rne_def pow2_def Let_def)
  have "round53 (1609344 / 1000) = sgn (1609344 / 1000 :: real) * of_int 7077969764366156 * pow2 (- 42)"
    by (rule round53_eval [OF _ k _ m]) simp_all
  then have "round53 (1609344 / 1000) = 1769492441091539 / 1099511627776"
    by (simp add: pow2_def)
  then have "fl False (1609344 / 1000) = Fin (1769492441091539 / 1099511627776)"
    by (rule fl_Fin) simp_all
  then show ?thesis by (simp add: f1609_344_def)
qed

lemma f1609_344_pos: "f1609_344 = Fin (fval f1609_344)" "0 < fval f1609_344"
  by (simp_all add: f1609_344_value fval_def)

subsection \<open>Decimal strings\<close>

lemma str_nat_lt10: "n < 10 \<Longrightarrow> str_nat n = [digit_char n]"
  by (subst str_nat.simps) simp

lemma str_nat_ge10: "10 \<le> n \<Longrightarrow> str_nat n = str_nat (n div 10) @ [digit_char (n mod 10)]"
  by (subst str_nat.simps) simp

lemma length_str_nat_pos: "1 \<le> length (str_nat n)"
  by (cases "n < 10") (simp_all add: str_nat_lt10 str_nat_ge10)

lemma length_str_nat_2: "n < 100 \<Longrightarrow> length (str_nat n) = (if n < 10 then 1 else 2)"
  by (cases "n < 10") (simp_all add: str_nat_lt10 str_nat_ge10)

lemma length_fmt_02d_ge: "2 \<le> length (fmt_02d i)"
  by (simp add: fmt_02d_def Let_def)

lemma length_fmt_02d_field: "0 \<le> i \<Longrightarrow> i < 100 \<Longrightarrow> length (fmt_02d i) = 2"
  using length_str_nat_2 [of "nat i"]
  by (simp add: fmt_02d_def Let_def str_int_def)

lemma digit_char_mem: "n < 10 \<Longrightarrow> digit_char n \<in> set ''0123456789''"
  unfolding digit_char_def by (rule nth_mem) simp

lemma str_nat_hd: "\<exists>c cs. str_nat n = c # cs \<and> c \<in> set ''0123456789''"
proof (induction n rule: str_nat.induct)
  case (1 n)
  show ?case
  proof (cases "n < 10")
    case True
    then show ?thesis using digit_char_mem [of n] by (simp add: str_nat_lt10)
  next
    case False
    with 1 obtain c cs where "str_nat (n div 10) = c # cs" "c \<in> set ''0123456789''" by blast
    with False show ?thesis by (simp add: str_nat_ge10)
  qed
qed

lemmas fmt_eval = fmt_fixed_def fixed_digits_def rne_def str_nat.simps digit_char_def Let_def
  fmt_02d_def str_int_def

lemma fmt_examples:
  "fmt_fixed 2 (Fin 10) = ''10.00''"
  "fmt_fixed 2 (Fin (3602879701896397 / 4503599627370496)) = ''0.80''"
  "fmt_fixed 1 (Fin 8) = ''8.0''"
  "fmt_fixed 2 (Fin 0) = ''0.00''"
  by (simp_all add: fmt_eval)

lemma float_of_str_bad: "float_of_str ''bad'' = Inl ValueError"
  by (simp add: float_of_str_def split_sign_def float_strip_def is_float_space_def lower_def
      lower_char_def
      parse_decimal_def is_digit_def)

subsection \<open>The helpers on particular values\<close>

lemma meters_Some:
  assumes "py_float m = Inr f"
  shows "\<exists>q. meters_to_km m = Some q" "\<exists>q. meters_to_miles m = Some q"
proof -
  obtain q1 where "fdiv f f1000 = Inr q1"
    using fdiv_total_pos [of 1000 f] by (auto simp: f1000_def)
  with assms show "\<exists>q. meters_to_km m = Some q" by (simp add: meters_to_km_def)
  obtain q2 where "fdiv f f1609_344 = Inr q2"
    using fdiv_total_pos [OF f1609_344_pos(2), of f] f1609_344_pos(1) by auto
  with assms show "\<exists>q. meters_to_miles m = Some q" by (simp add: meters_to_miles_def)
qed

lemma meters_None:
  "py_float m = Inl e \<Longrightarrow> meters_to_km m = None"
  "py_float m = Inl e \<Longrightarrow> meters_to_miles m = None"
  by (simp_all add: meters_to_km_def meters_to_miles_def)

lemma meters_zero: "meters_to_km (PInt 0) = Some (Fin 0)" "meters_to_miles (PInt 0) = Some (Fin 0)"
proof -
  have p: "py_float (PInt 0) = Inr (Fin 0)"
    using py_float_small_int [of 0] by simp
  show "meters_to_km (PInt 0) = Some (Fin 0)"
    using p by (simp add: meters_to_km_def f1000_def fdiv_Fin_pos fl_zero)
  have "fdiv (Fin 0) f1609_344 = Inr (fl False 0)"
    using fdiv_Fin_pos [OF f1609_344_pos(2), of 0] f1609_344_pos(1) by simp
  then show "meters_to_miles (PInt 0) = Some (Fin 0)"
    using p by (simp add: meters_to_miles_def fl_zero)
qed

lemma meters_to_km_10000: "meters_to_km (PInt 10000) = Some (Fin 10)"
proof -
  have "py_float (PInt 10000) = Inr (Fin 10000)"
    using py_float_small_int [of 10000] by simp
  moreover have "fl False 10 = Fin 10"
    using fl_small_int [of 10 False] by simp
  ultimately show ?thesis
    by (simp add: meters_to_km_def f1000_def fdiv_Fin_pos)
qed

lemma seconds_to_hms_1800: "seconds_to_hms (PInt 1800) = ''00:30:00''"
  using py_float_small_int [of 1800]
  by (simp add: seconds_to_hms_def round_float_def rne_def Let_def fmt_02d_def str_int_def
      str_nat.simps digit_char_def)

lemma hms_fields:
  fixes n :: int
  shows "0 \<le> n mod 3600 div 60" "n mod 3600 div 60 \<le> 59" "0 \<le> n mod 60" "n mod 60 \<le> 59"
    "n = 3600 * (n div 3600) + 60 * (n mod 3600 div 60) + n mod 60"
proof -
  have a: "0 \<le> n mod 3600" "n mod 3600 \<le> 3599"
    using pos_mod_bound [of 3600 n] by simp_all
  show "0 \<le> n mod 3600 div 60"
    using a(1) by (simp add: pos_imp_zdiv_nonneg_iff)
  have "n mod 3600 div 60 \<le> 3599 div 60"
    using a(2) by (intro zdiv_mono1) simp_all
  then show "n mod 3600 div 60 \<le> 59" by simp
  show "0 \<le> n mod 60" by simp
  show "n mod 60 \<le> 59" using pos_mod_bound [of 60 n] by simp
  have "n mod 3600 mod 60 = n mod 60"
    by (rule mod_mod_cancel) simp
  then have "n mod 3600 = 60 * (n mod 3600 div 60) + n mod 60"
    using mult_div_mod_eq [of 60 "n mod 3600"] by simp
  then show "n = 3600 * (n div 3600) + 60 * (n mod 3600 div 60) + n mod 60"
    using mult_div_mod_eq [of 3600 n] by linarith
qed

subsection \<open>The directions client returns one of three outcomes\<close>

text \<open>
  Claim C1. Whatever the coordinates and the credential, \<^verbatim>\<open>fetch_route\<close> returns
  \<^verbatim>\<open>(None, None)\<close> when the request fails in transport; the parsed body, or the raw
  text wrapped under \<^verbatim>\<open>raw\<close> when it does not parse, and no error when the status is
  200; and for any other status no payload and the error dict of that status code
  with the parsed body, wrapped under \<^verbatim>\<open>error\<close> when it is not a dict and under
  \<^verbatim>\<open>raw\<close> when it does not parse. It never returns both a payload and an error.
\<close>

theorem fetch_route_outcomes:
  "(net (reqs w) (directions_request oc dc key) = RequestException e \<longrightarrow>
      fst (fetch_route repr net oc dc key w) = (PNone, PNone))
   \<and> (net (reqs w) (directions_request oc dc key) = Response r \<and> status_code r = 200 \<longrightarrow>
      fst (fetch_route repr net oc dc key w) =
        ((case resp_json r of Some d \<Rightarrow> d | None \<Rightarrow> PDict [(''raw'', PStr (resp_text r))]), PNone))
   \<and> (net (reqs w) (directions_request oc dc key) = Response r \<and> status_code r \<noteq> 200 \<longrightarrow>
      fst (fetch_route repr net oc dc key w) =
        (PNone, PDict [(''status'', PInt (status_code r)),
                       (''message'',
                          (case resp_json r of
                             Some d \<Rightarrow> if is_dict d then d else PDict [(''error'', PStr (py_str repr d))]
                           | None \<Rightarrow> PDict [(''raw'', PStr (resp_text r))]))]))
   \<and> (fst (fst (fetch_route repr net oc dc key w)) = PNone
        \<or> snd (fst (fetch_route repr net oc dc key w)) = PNone)"
  by (auto simp: fetch_route_def send_def Let_def is_dict_def split: http_result.splits option.splits)

theorem fetch_route_outcomes_witness:
  "fst (fetch_route (\<lambda>v. ''?'') (\<lambda>h q. RequestException ''timed out'')
          (PList [PInt 1, PInt 2]) (PList [PInt 3, PInt 4]) ''k'' \<lparr>reqs = [], out = []\<rparr>)
     = (PNone, PNone)
   \<and> fst (fetch_route (\<lambda>v. ''?'')
          (\<lambda>h q. Response \<lparr>status_code = 200, resp_text = ''{}'', resp_json = Some (PDict [])\<rparr>)
          (PList [PInt 1, PInt 2]) (PList [PInt 3, PInt 4]) ''k'' \<lparr>reqs = [], out = []\<rparr>)
     = (PDict [], PNone)
   \<and> fst (fetch_route (\<lambda>v. ''?'')
          (\<lambda>h q. Response \<lparr>status_code = 401, resp_text = ''denied'', resp_json = None\<rparr>)
          (PList [PInt 1, PInt 2]) (PList [PInt 3, PInt 4]) ''k'' \<lparr>reqs = [], out = []\<rparr>)
     = (PNone, PDict [(''status'', PInt 401), (''message'', PDict [(''raw'', PStr ''denied'')])])"
  using
    fetch_route_outcomes [where net = "\<lambda>h q. RequestException ''timed out''"
      and w = "\<lparr>reqs = [], out = []\<rparr>" and oc = "PList [PInt 1, PInt 2]"
      and dc = "PList [PInt 3, PInt 4]" and key = "''k''" and e = "''timed out''"
      and repr = "\<lambda>v. ''?''"]
    fetch_route_outcomes [where
      net = "\<lambda>h q. Response \<lparr>status_code = 200, resp_text = ''{}'', resp_json = Some (PDict [])\<rparr>"
      and w = "\<lparr>reqs = [], out = []\<rparr>" and oc = "PList [PInt 1, PInt 2]"
      and dc = "PList [PInt 3, PInt 4]" and key = "''k''"
      and r = "\<lparr>status_code = 200, resp_text = ''{}'', resp_json = Some (PDict [])\<rparr>"
      and repr = "\<lambda>v. ''?''"]
    fetch_route_outcomes [where
      net = "\<lambda>h q. Response \<lparr>status_code = 401, resp_text = ''denied'', resp_json = None\<rparr>"
      and w = "\<lparr>reqs = [], out = []\<rparr>" and oc = "PList [PInt 1, PInt 2]"
      and dc = "PList [PInt 3, PInt 4]" and key = "''k''"
      and r = "\<lparr>status_code = 401, resp_text = ''denied'', resp_json = None\<rparr>"
      and repr = "\<lambda>v. ''?''"]
  by simp

subsection \<open>The results of the geocoder client\<close>

lemma le_int_val_num:
  "num_value v = Some x \<Longrightarrow> le_int_val i v = Inr (of_int i \<le> x)"
  by (auto simp: num_value_def le_int_val_def le_int_float_def split: pyval.splits pyfloat.splits)

lemma le_val_int_num:
  "num_value v = Some x \<Longrightarrow> le_val_int v i = Inr (x \<le> of_int i)"
  by (auto simp: num_value_def le_val_int_def le_float_int_def split: pyval.splits pyfloat.splits)

lemma in_range_num:
  "num_value lon = Some x \<Longrightarrow> num_value lat = Some y \<Longrightarrow>
   in_range lon lat = Inr (- 180 \<le> x \<and> x \<le> 180 \<and> - 90 \<le> y \<and> y \<le> 90)"
  by (simp add: in_range_def le_int_val_num le_val_int_num)

lemma le_both_num:
  "le_int_val i v = Inr True \<Longrightarrow> le_val_int v j = Inr True \<Longrightarrow>
   \<exists>x. num_value v = Some x \<and> of_int i \<le> x \<and> x \<le> of_int j"
  by (auto simp: num_value_def le_int_val_def le_val_int_def le_int_float_def le_float_int_def
      split: pyval.splits pyfloat.splits if_splits)

lemma in_range_True:
  assumes "in_range lon lat = Inr True"
  shows "\<exists>x y. num_value lon = Some x \<and> num_value lat = Some y
           \<and> - 180 \<le> x \<and> x \<le> 180 \<and> - 90 \<le> y \<and> y \<le> 90"
proof -
  from assms have a: "le_int_val (- 180) lon = Inr True" "le_val_int lon 180 = Inr True"
    "le_int_val (- 90) lat = Inr True" "le_val_int lat 90 = Inr True"
    by (auto simp: in_range_def split: sum.splits if_splits)
  from le_both_num [OF a(1,2)] le_both_num [OF a(3,4)] show ?thesis by auto
qed

lemmas geocode_steps =
  geocode_address_def send_def dict_get_def truthy_def index0_def py_len_def unpack2_def py_iter_def

lemma geocode_address_success:
  assumes "fst (geocode_address net address key w) = Inr v" and "v \<noteq> PNone"
  shows "\<exists>lon lat. v = PList [lon, lat] \<and> in_range lon lat = Inr True"
  using assms
  by (auto simp: geocode_address_def send_def split: http_result.splits option.splits sum.splits if_splits prod.splits)

text \<open>
  Claim C2. When the geocoding request gets a response, \<^verbatim>\<open>geocode_address\<close> returns
  \<^verbatim>\<open>None\<close> if the status is not 200, if the feature list is missing or empty, if the
  top feature has no geometry or the geometry no coordinates, if the coordinates are
  empty or have a length other than 2, and if they are a pair that the range test
  rejects; a pair that the test accepts is returned as it is, longitude first. On two
  finite numbers the test is \<open>-180 \<le> lon \<le> 180\<close> and \<open>-90 \<le> lat \<le> 90\<close>. Whatever the
  network does, a result that is not \<^verbatim>\<open>None\<close> is a pair of finite numbers in those
  ranges.
\<close>

theorem geocode_address_results:
  assumes "net (reqs w) (geocode_request address key) = Response r"
  shows
   "(status_code r \<noteq> 200 \<longrightarrow> fst (geocode_address net address key w) = Inr PNone)
    \<and> (status_code r = 200 \<and> resp_json r = Some (PDict d)
        \<and> (map_of d ''features'' = None \<or> map_of d ''features'' = Some (PList [])) \<longrightarrow>
          fst (geocode_address net address key w) = Inr PNone)
    \<and> (status_code r = 200 \<and> resp_json r = Some (PDict d)
        \<and> map_of d ''features'' = Some (PList (PDict f # fs)) \<longrightarrow>
          (map_of f ''geometry'' = None \<longrightarrow>
             fst (geocode_address net address key w) = Inr PNone)
        \<and> (map_of f ''geometry'' = Some (PDict g) \<and> map_of g ''coordinates'' = None \<longrightarrow>
             fst (geocode_address net address key w) = Inr PNone)
        \<and> (map_of f ''geometry'' = Some (PDict g) \<and> map_of g ''coordinates'' = Some c
            \<and> (\<not> truthy c \<or> (\<exists>n. py_len c = Inr n \<and> n \<noteq> 2)) \<longrightarrow>
             fst (geocode_address net address key w) = Inr PNone)
        \<and> (map_of f ''geometry'' = Some (PDict g)
            \<and> map_of g ''coordinates'' = Some (PList [lon, lat])
            \<and> in_range lon lat = Inr ok \<longrightarrow>
             fst (geocode_address net address key w) =
               (if ok then Inr (PList [lon, lat]) else Inr PNone)))
    \<and> (num_value lon = Some x \<and> num_value lat = Some y \<longrightarrow>
          in_range lon lat = Inr (- 180 \<le> x \<and> x \<le> 180 \<and> - 90 \<le> y \<and> y \<le> 90))
    \<and> (fst (geocode_address net address key w) = Inr v \<and> v \<noteq> PNone \<longrightarrow>
          (\<exists>lon lat x y. v = PList [lon, lat]
             \<and> num_value lon = Some x \<and> num_value lat = Some y
             \<and> - 180 \<le> x \<and> x \<le> 180 \<and> - 90 \<le> y \<and> y \<le> 90))"
proof (intro conjI impI)
  assume "status_code r \<noteq> 200"
  with assms show "fst (geocode_address net address key w) = Inr PNone"
    by (simp add: geocode_steps)
next
  assume "status_code r = 200 \<and> resp_json r = Some (PDict d)
        \<and> (map_of d ''features'' = None \<or> map_of d ''features'' = Some (PList []))"
  with assms show "fst (geocode_address net address key w) = Inr PNone"
    by (auto simp: geocode_steps)
next
  assume "status_code r = 200 \<and> resp_json r = Some (PDict d)
        \<and> map_of d ''features'' = Some (PList (PDict f # fs))"
    and "map_of f ''geometry'' = None"
  with assms show "fst (geocode_address net address key w) = Inr PNone"
    by (simp add: geocode_steps)
next
  assume "status_code r = 200 \<and> resp_json r = Some (PDict d)
        \<and> map_of d ''features'' = Some (PList (PDict f # fs))"
    and "map_of f ''geometry'' = Some (PDict g) \<and> map_of g ''coordinates'' = None"
  with assms show "fst (geocode_address net address key w) = Inr PNone"
    by (simp add: geocode_steps)
next
  assume "status_code r = 200 \<and> resp_json r = Some (PDict d)
        \<and> map_of d ''features'' = Some (PList (PDict f # fs))"
    and "map_of f ''geometry'' = Some (PDict g) \<and> map_of g ''coordinates'' = Some c
            \<and> (\<not> truthy c \<or> (\<exists>n. py_len c = Inr n \<and> n \<noteq> 2))"
  with assms show "fst (geocode_address net address key w) = Inr PNone"
    by (auto simp: geocode_address_def send_def dict_get_def truthy_def [of "PList _"] index0_def)
next
  assume "status_code r = 200 \<and> resp_json r = Some (PDict d)
        \<and> map_of d ''features'' = Some (PList (PDict f # fs))"
    and "map_of f ''geometry'' = Some (PDict g)
            \<and> map_of g ''coordinates'' = Some (PList [lon, lat])
            \<and> in_range lon lat = Inr ok"
  with assms show "fst (geocode_address net address key w) =
               (if ok then Inr (PList [lon, lat]) else Inr PNone)"
    by (simp add: geocode_steps)
next
  assume "num_value lon = Some x \<and> num_value lat = Some y"
  then show "in_range lon lat = Inr (- 180 \<le> x \<and> x \<le> 180 \<and> - 90 \<le> y \<and> y \<le> 90)"
    by (simp add: in_range_num)
next
  assume "fst (geocode_address net address key w) = Inr v \<and> v \<noteq> PNone"
  then obtain lon lat where "v = PList [lon, lat]" and "in_range lon lat = Inr True"
    using geocode_address_success by blast
  with in_range_True [of lon lat]
  show "\<exists>lon lat x y. v = PList [lon, lat]
             \<and> num_value lon = Some x \<and> num_value lat = Some y
             \<and> - 180 \<le> x \<and> x \<le> 180 \<and> - 90 \<le> y \<and> y \<le> 90"
    by blast
qed

theorem geocode_address_results_witness:
  "fst (geocode_address (\<lambda>h q. Response \<lparr>status_code = 404, resp_text = ''Not Found'', resp_json = None\<rparr>)
          ''Oslo'' ''k'' w0) = Inr PNone
   \<and> fst (geocode_address (\<lambda>h q. Response (geo_response (PList []))) ''Oslo'' ''k'' w0) = Inr PNone
   \<and> fst (geocode_address (\<lambda>h q. Response (geo_response (PList [PDict []]))) ''Oslo'' ''k'' w0)
       = Inr PNone
   \<and> fst (geocode_address (\<lambda>h q. Response (geo_response (PList [PDict [(''geometry'', PDict [])]])))
          ''Oslo'' ''k'' w0) = Inr PNone
   \<and> fst (geocode_address
          (\<lambda>h q. Response (geo_response (PList [feature (PList [PInt 1, PInt 2, PInt 3])])))
          ''Oslo'' ''k'' w0) = Inr PNone
   \<and> in_range (PInt 200) (PInt 45) = Inr False
   \<and> fst (geocode_address (\<lambda>h q. Response (geo_response (PList [feature (PList [PInt 200, PInt 45])])))
          ''Oslo'' ''k'' w0) = Inr PNone
   \<and> fst (geocode_address
          (\<lambda>h q. Response (geo_response (PList [feature (PList [PFloat (Fin 10.75), PFloat (Fin 59.5)])])))
          ''Oslo'' ''k'' w0) = Inr (PList [PFloat (Fin 10.75), PFloat (Fin 59.5)])
   \<and> (\<exists>lon lat x y. PList [PFloat (Fin 10.75), PFloat (Fin 59.5)] = PList [lon, lat]
         \<and> num_value lon = Some x \<and> num_value lat = Some y
         \<and> - 180 \<le> x \<and> x \<le> 180 \<and> - 90 \<le> y \<and> y \<le> 90)"
proof -
  let ?r1 = "\<lparr>status_code = 404, resp_text = ''Not Found'', resp_json = None\<rparr>"
  let ?c3 = "PList [PInt 1, PInt 2, PInt 3]"
  let ?c6 = "PList [PInt 200, PInt 45]"
  let ?c7 = "PList [PFloat (Fin 10.75), PFloat (Fin 59.5)]"
  have a1: "fst (geocode_address (\<lambda>h q. Response ?r1) ''Oslo'' ''k'' w0) = Inr PNone"
    using geocode_address_results [where net = "\<lambda>h q. Response ?r1" and r = ?r1 and w = w0
        and address = "''Oslo''" and key = "''k''"]
    by simp
  have a2: "fst (geocode_address (\<lambda>h q. Response (geo_response (PList []))) ''Oslo'' ''k'' w0)
      = Inr PNone"
    using geocode_address_results [where net = "\<lambda>h q. Response (geo_response (PList []))"
        and r = "geo_response (PList [])" and w = w0 and address = "''Oslo''" and key = "''k''"
        and d = "[(''features'', PList [])]"]
    by (simp add: geo_response_def)
  have a3: "fst (geocode_address (\<lambda>h q. Response (geo_response (PList [PDict []]))) ''Oslo'' ''k'' w0)
      = Inr PNone"
    using geocode_address_results [where net = "\<lambda>h q. Response (geo_response (PList [PDict []]))"
        and r = "geo_response (PList [PDict []])" and w = w0 and address = "''Oslo''"
        and key = "''k''" and d = "[(''features'', PList [PDict []])]" and f = "[]" and fs = "[]"]
    by (simp add: geo_response_def)
  have a4: "fst (geocode_address
        (\<lambda>h q. Response (geo_response (PList [PDict [(''geometry'', PDict [])]])))
        ''Oslo'' ''k'' w0) = Inr PNone"
    using geocode_address_results [where
        net = "\<lambda>h q. Response (geo_response (PList [PDict [(''geometry'', PDict [])]]))"
        and r = "geo_response (PList [PDict [(''geometry'', PDict [])]])" and w = w0
        and address = "''Oslo''" and key = "''k''"
        and d = "[(''features'', PList [PDict [(''geometry'', PDict [])]])]"
        and f = "[(''geometry'', PDict [])]" and fs = "[]" and g = "[]"]
    by (simp add: geo_response_def)
  have a5: "fst (geocode_address (\<lambda>h q. Response (geo_response (PList [feature ?c3])))
        ''Oslo'' ''k'' w0) = Inr PNone"
    using geocode_address_results [where
        net = "\<lambda>h q. Response (geo_response (PList [feature ?c3]))"
        and r = "geo_response (PList [feature ?c3])" and w = w0
        and address = "''Oslo''" and key = "''k''"
        and d = "[(''features'', PList [feature ?c3])]"
        and f = "[(''geometry'', PDict [(''coordinates'', ?c3)])]"
        and fs = "[]" and g = "[(''coordinates'', ?c3)]" and c = ?c3]
    by (simp add: geo_response_def feature_def py_len_def)
  have a6: "in_range (PInt 200) (PInt 45) = Inr False"
    using geocode_address_results [where
        net = "\<lambda>h q. Response (geo_response (PList [feature ?c6]))"
        and r = "geo_response (PList [feature ?c6])" and w = w0
        and address = "''Oslo''" and key = "''k''"
        and lon = "PInt 200" and lat = "PInt 45" and x = 200 and y = 45]
    by (simp add: num_value_def)
  have a7: "fst (geocode_address (\<lambda>h q. Response (geo_response (PList [feature ?c6])))
        ''Oslo'' ''k'' w0) = Inr PNone"
    using geocode_address_results [where
        net = "\<lambda>h q. Response (geo_response (PList [feature ?c6]))"
        and r = "geo_response (PList [feature ?c6])" and w = w0
        and address = "''Oslo''" and key = "''k''"
        and d = "[(''features'', PList [feature ?c6])]"
        and f = "[(''geometry'', PDict [(''coordinates'', ?c6)])]"
        and fs = "[]" and g = "[(''coordinates'', ?c6)]"
        and lon = "PInt 200" and lat = "PInt 45" and ok = False] a6
    by (simp add: geo_response_def feature_def)
  have b7: "in_range (PFloat (Fin 10.75)) (PFloat (Fin 59.5)) = Inr True"
    using geocode_address_results [where
        net = "\<lambda>h q. Response (geo_response (PList [feature ?c7]))"
        and r = "geo_response (PList [feature ?c7])" and w = w0
        and address = "''Oslo''" and key = "''k''"
        and lon = "PFloat (Fin 10.75)" and lat = "PFloat (Fin 59.5)" and x = "10.75" and y = "59.5"]
    by (simp add: num_value_def)
  have a8: "fst (geocode_address (\<lambda>h q. Response (geo_response (PList [feature ?c7])))
        ''Oslo'' ''k'' w0) = Inr ?c7"
    using geocode_address_results [where
        net = "\<lambda>h q. Response (geo_response (PList [feature ?c7]))"
        and r = "geo_response (PList [feature ?c7])" and w = w0
        and address = "''Oslo''" and key = "''k''"
        and d = "[(''features'', PList [feature ?c7])]"
        and f = "[(''geometry'', PDict [(''coordinates'', ?c7)])]"
        and fs = "[]" and g = "[(''coordinates'', ?c7)]"
        and lon = "PFloat (Fin 10.75)" and lat = "PFloat (Fin 59.5)" and ok = True] b7
    by (simp add: geo_response_def feature_def)
  have a9: "\<exists>lon lat x y. ?c7 = PList [lon, lat]
         \<and> num_value lon = Some x \<and> num_value lat = Some y
         \<and> - 180 \<le> x \<and> x \<le> 180 \<and> - 90 \<le> y \<and> y \<le> 90"
    using geocode_address_results [where
        net = "\<lambda>h q. Response (geo_response (PList [feature ?c7]))"
        and r = "geo_response (PList [feature ?c7])" and w = w0
        and address = "''Oslo''" and key = "''k''" and v = ?c7] a8
    by simp
  from a1 a2 a3 a4 a5 a6 a7 a8 a9 show ?thesis by blast
qed

subsection \<open>Unhandled exceptions\<close>

text \<open>
  Claim C3. \<^verbatim>\<open>geocode_address\<close> and \<^verbatim>\<open>print_route\<close> should raise nothing, whatever the
  response. The source calls \<^verbatim>\<open>r.json()\<close> in \<^verbatim>\<open>geocode_address\<close> outside any
  \<^verbatim>\<open>try\<close>: a response with status 200 whose body is not JSON raises there. A
  coordinate pair of two strings raises \<^verbatim>\<open>TypeError\<close> at the range comparison, and a
  payload that is a JSON array raises \<^verbatim>\<open>AttributeError\<close> at the first \<^verbatim>\<open>data.get\<close> of
  \<^verbatim>\<open>print_route\<close>.
\<close>

theorem unhandled_exceptions:
  "fst (geocode_address
          (\<lambda>h q. Response \<lparr>status_code = 200, resp_text = ''<html>'', resp_json = None\<rparr>)
          ''Oslo'' ''k'' w0) = Inl JSONDecodeError
   \<and> fst (geocode_address
          (\<lambda>h q. Response (geo_response (PList [feature (PList [PStr ''a'', PStr ''b''])])))
          ''Oslo'' ''k'' w0) = Inl TypeError
   \<and> fst (print_route (\<lambda>v. ''?'') ''Oslo'' ''Rome'' (PList []) ''metric'' None w0)
       = Inl AttributeError"
  by (simp add: geo_response_def feature_def geocode_steps in_range_def le_int_val_def
      print_route_def)

subsection \<open>The fuel estimate\<close>

lemma not_fuel_hd: "s = c # cs \<Longrightarrow> c \<noteq> CHR ''E'' \<Longrightarrow> \<not> is_fuel_line (s @ t)"
  by (simp add: is_fuel_line_def)

lemma step_line_not_fuel: "\<not> is_fuel_line (str_nat idx @ t)"
proof -
  obtain c cs where "str_nat idx = c # cs" "c \<in> set ''0123456789''"
    using str_nat_hd by blast
  then show ?thesis by (intro not_fuel_hd [of _ c cs]) auto
qed

lemma print_steps_out:
  "\<exists>ls. out (snd (print_steps repr unit_system idx xs w)) = out w @ ls
        \<and> (\<forall>x\<in>set ls. \<not> is_fuel_line x)"
proof (induction xs arbitrary: idx w)
  case Nil
  then show ?case by simp
next
  case (Cons step steps)
  show ?case
  proof (cases "dict_get step ''instruction'' (PStr ''N/A'')")
    case (Inl e)
    then show ?thesis by simp
  next
    case i: (Inr instruction)
    show ?thesis
    proof (cases "dict_get step ''distance'' (PInt 0)")
      case (Inl e)
      with i show ?thesis by simp
    next
      case d: (Inr step_m)
      define line where "line = (case (if unit_system = ''imperial'' then meters_to_miles step_m
                          else meters_to_km step_m) of
                 None \<Rightarrow> str_nat idx @ ''. '' @ py_str repr instruction
               | Some d \<Rightarrow> str_nat idx @ ''. '' @ py_str repr instruction
                                   @ '' ('' @ fmt_fixed 2 d @ '' ''
                                   @ (if unit_system = ''imperial'' then ''mi'' else ''km'') @ '')'')"
      have nf: "\<not> is_fuel_line line"
        unfolding line_def using step_line_not_fuel by (simp split: option.split)
      have eq: "print_steps repr unit_system idx (step # steps) w
          = print_steps repr unit_system (Suc idx) steps (print line w)"
        using i d by (simp add: line_def Let_def split: option.split)
      from Cons.IH [of "Suc idx" "print line w"] obtain ls where
        "out (snd (print_steps repr unit_system (Suc idx) steps (print line w)))
           = out (print line w) @ ls" "\<forall>x\<in>set ls. \<not> is_fuel_line x"
        by blast
      with nf eq show ?thesis by (intro exI [of _ "line # ls"]) simp
    qed
  qed
qed

lemma print_directions_out:
  "\<exists>ls. out (snd (print_directions repr unit_system (PDict sg) w)) = out w @ ls
        \<and> (\<forall>x\<in>set ls. \<not> is_fuel_line x)"
proof -
  define steps where "steps = (case map_of sg ''steps'' of Some v \<Rightarrow> v | None \<Rightarrow> PList [])"
  define tail where "tail =
    (if truthy steps then
       (case py_iter steps of
          Inl e \<Rightarrow> (Inl e, w)
        | Inr xs \<Rightarrow> print_steps repr unit_system 1 xs w)
     else (Inr (), print ''No step-by-step directions available.'' w))"
  have pd: "print_directions repr unit_system (PDict sg) w =
      (case tail of
         (Inl e, w') \<Rightarrow> (Inl e, w')
       | (Inr u, w') \<Rightarrow> (Inr (), print (rule_line @ [CHR 0x0A]) w'))"
    by (simp add: print_directions_def dict_get_def tail_def steps_def)
  have "\<exists>ls. out (snd tail) = out w @ ls \<and> (\<forall>x\<in>set ls. \<not> is_fuel_line x)"
  proof (cases "truthy steps")
    case False
    then show ?thesis by (simp add: tail_def is_fuel_line_def)
  next
    case True
    show ?thesis
    proof (cases "py_iter steps")
      case (Inl e)
      with True show ?thesis by (simp add: tail_def)
    next
      case (Inr xs)
      with True print_steps_out [of repr unit_system 1 xs w] show ?thesis
        by (simp add: tail_def)
    qed
  qed
  then obtain ls where ls: "out (snd tail) = out w @ ls" "\<forall>x\<in>set ls. \<not> is_fuel_line x"
    by blast
  obtain res w' where t: "tail = (res, w')" by (cases tail)
  show ?thesis
  proof (cases res)
    case (Inl e)
    with pd t ls show ?thesis by auto
  next
    case (Inr u)
    with pd t ls have "out (snd (print_directions repr unit_system (PDict sg) w))
        = out w @ (ls @ [rule_line @ [CHR 0x0A]])"
      by simp
    moreover have "\<not> is_fuel_line (rule_line @ [CHR 0x0A])"
      by (simp add: is_fuel_line_def rule_line_def)
    ultimately show ?thesis using ls(2) by (intro exI [of _ "ls @ [rule_line @ [CHR 0x0A]]"]) simp
  qed
qed

lemma print_route_out:
  fixes unit_system :: string and sg :: "(string \<times> pyval) list"
  assumes "data = PDict d"
    and "map_of d ''routes'' = Some (PList (PDict rt # rs))"
    and "map_of rt ''segments'' = Some (PList (PDict sg # ss))"
  defines "distance_m \<equiv> (case map_of sg ''distance'' of Some v \<Rightarrow> v | None \<Rightarrow> PNone)"
    and "duration_s \<equiv> (case map_of sg ''duration'' of Some v \<Rightarrow> v | None \<Rightarrow> PNone)"
  defines "dist_val \<equiv> (if unit_system = ''imperial'' then meters_to_miles distance_m
                         else meters_to_km distance_m)"
  shows "\<exists>r ls. (l_per_100km \<noteq> None \<longrightarrow> fdiv (the l_per_100km) f100 = Inr r)
     \<and> out (snd (print_route repr orig dest data unit_system l_per_100km w))
       = out w
         @ [[CHR 0x0A] @ ''API Status: Successful route call.'' @ [CHR 0x0A], rule_line,
            ''Directions from '' @ orig @ '' to '' @ dest,
            ''Trip Duration: '' @ (if duration_s \<noteq> PNone then seconds_to_hms duration_s else ''N/A''),
            ''Distance: '' @ (case dist_val of
                                None \<Rightarrow> ''N/A''
                              | Some d \<Rightarrow> fmt_fixed 2 d @ '' ''
                                  @ (if unit_system = ''imperial'' then ''miles'' else ''km''))]
         @ (if l_per_100km \<noteq> None \<and> dist_val \<noteq> None \<and> unit_system = ''metric''
            then [fuel_line (fmul (the dist_val) r) (the l_per_100km)] else [])
         @ [rule_line] @ ls
     \<and> (\<forall>x\<in>set ls. \<not> is_fuel_line x)"
proof -
  obtain r where r: "fdiv (the l_per_100km) f100 = Inr r"
    using fdiv_f100 by blast
  define head where "head =
    [[CHR 0x0A] @ ''API Status: Successful route call.'' @ [CHR 0x0A], rule_line,
            ''Directions from '' @ orig @ '' to '' @ dest,
            ''Trip Duration: '' @ (if duration_s \<noteq> PNone then seconds_to_hms duration_s else ''N/A''),
            ''Distance: '' @ (case dist_val of
                                None \<Rightarrow> ''N/A''
                              | Some d \<Rightarrow> fmt_fixed 2 d @ '' ''
                                  @ (if unit_system = ''imperial'' then ''miles'' else ''km''))]
         @ (if l_per_100km \<noteq> None \<and> dist_val \<noteq> None \<and> unit_system = ''metric''
            then [fuel_line (fmul (the dist_val) r) (the l_per_100km)] else [])
         @ [rule_line]"
  define w4 where "w4 = w\<lparr>out := out w @ head\<rparr>"
  have pr: "print_route repr orig dest data unit_system l_per_100km w
      = print_directions repr unit_system (PDict sg) w4"
  proof (cases "l_per_100km \<noteq> None \<and> dist_val \<noteq> None \<and> unit_system = ''metric''")
    case True
    with assms(1-3) r show ?thesis
      by (simp add: print_route_def dict_get_def truthy_def [of "PList _"] index0_def Let_def
          print_def w4_def head_def distance_m_def duration_s_def dist_val_def)
  next
    case False
    with assms(1-3) show ?thesis
      by (auto simp add: print_route_def dict_get_def truthy_def [of "PList _"] index0_def Let_def
          print_def w4_def head_def distance_m_def duration_s_def dist_val_def)
  qed
  obtain ls where
    "out (snd (print_directions repr unit_system (PDict sg) w4)) = out w4 @ ls"
    "\<forall>x\<in>set ls. \<not> is_fuel_line x"
    using print_directions_out by blast
  with r pr show ?thesis
    unfolding w4_def head_def by (intro exI [of _ r] exI [of _ ls]) simp
qed

lemma fuel_line_is_fuel: "is_fuel_line (fuel_line a b)"
  by (simp add: is_fuel_line_def fuel_line_def)

lemma summary_not_fuel:
  "\<not> is_fuel_line ([CHR 0x0A] @ ''API Status: Successful route call.'' @ [CHR 0x0A])"
  "\<not> is_fuel_line rule_line"
  "\<not> is_fuel_line (''Directions from '' @ t)"
  "\<not> is_fuel_line (''Trip Duration: '' @ t)"
  "\<not> is_fuel_line (''Distance: '' @ t)"
  by (simp_all add: is_fuel_line_def rule_line_def)

lemma fuel_line_example:
  "fuel_line (fmul (Fin 10) (Fin (5764607523034235 / 72057594037927936))) (Fin 8)
     = ''Estimated Fuel Used: 0.80 L (at 8.0 L/100km)''"
  by (simp add: fuel_line_def fmul_10_008 fmt_eval)

text \<open>
  Claim C4. For a payload whose first route has a first segment, \<^verbatim>\<open>print_route\<close> prints
  a line of the fuel estimate exactly when a fuel rate was given, the distance of
  the segment converts to kilometres and the unit system is \<^verbatim>\<open>metric\<close>. The line is
  then \<^verbatim>\<open>Estimated Fuel Used: \<close>, the float product of the kilometres and the rate
  divided by \<^verbatim>\<open>100.0\<close> with two decimals, \<^verbatim>\<open> L (at \<close>, the rate with one decimal and
  \<^verbatim>\<open> L/100km)\<close>, and it is the only such line; on finite floats the quotient and the
  product are the exact ones rounded to the nearest double. With \<^verbatim>\<open>imperial\<close> there is
  no such line. With distance 10000, duration 1800, metric units
  and rate 8.0 the lines \<^verbatim>\<open>Distance: 10.00 km\<close>, \<^verbatim>\<open>Trip Duration: 00:30:00\<close> and
  \<^verbatim>\<open>Estimated Fuel Used: 0.80 L (at 8.0 L/100km)\<close> are printed.
\<close>

theorem fuel_estimate_line:
  fixes repr :: "pyval \<Rightarrow> string" and orig dest unit_system :: string and data :: pyval
    and l_per_100km :: "pyfloat option" and w :: io and sg :: "(string \<times> pyval) list"
  assumes "data = PDict d"
    and "map_of d ''routes'' = Some (PList (PDict rt # rs))"
    and "map_of rt ''segments'' = Some (PList (PDict sg # ss))"
  defines "distance_m \<equiv> (case map_of sg ''distance'' of Some v \<Rightarrow> v | None \<Rightarrow> PNone)"
  defines "lines \<equiv> printed w (snd (print_route repr orig dest data unit_system l_per_100km w))"
  shows
    "((\<exists>x\<in>set lines. is_fuel_line x) \<longleftrightarrow>
        l_per_100km \<noteq> None \<and> meters_to_km distance_m \<noteq> None \<and> unit_system = ''metric'')
     \<and> (l_per_100km = Some rate \<and> meters_to_km distance_m = Some km \<and> unit_system = ''metric'' \<longrightarrow>
          (\<exists>r. fdiv rate f100 = Inr r
             \<and> ''Estimated Fuel Used: '' @ fmt_fixed 2 (fmul km r) @ '' L (at ''
                   @ fmt_fixed 1 rate @ '' L/100km)'' \<in> set lines
             \<and> (\<forall>x\<in>set lines. is_fuel_line x \<longrightarrow>
                   x = ''Estimated Fuel Used: '' @ fmt_fixed 2 (fmul km r) @ '' L (at ''
                         @ fmt_fixed 1 rate @ '' L/100km)'')))
     \<and> fdiv (Fin q) f100 = Inr (fl (q < 0) (q / 100))
     \<and> fmul (Fin a) (Fin b) = fl ((a < 0) \<noteq> (b < 0)) (a * b)
     \<and> (unit_system = ''imperial'' \<longrightarrow> \<not> (\<exists>x\<in>set lines. is_fuel_line x))
     \<and> (map_of sg ''distance'' = Some (PInt 10000) \<and> map_of sg ''duration'' = Some (PInt 1800)
         \<and> unit_system = ''metric'' \<and> l_per_100km = Some (Fin 8) \<longrightarrow>
          ''Distance: 10.00 km'' \<in> set lines
          \<and> ''Trip Duration: 00:30:00'' \<in> set lines
          \<and> ''Estimated Fuel Used: 0.80 L (at 8.0 L/100km)'' \<in> set lines)"
proof -
  define duration_s where "duration_s = (case map_of sg ''duration'' of Some v \<Rightarrow> v | None \<Rightarrow> PNone)"
  define dist_val where "dist_val = (if unit_system = ''imperial'' then meters_to_miles distance_m
                         else meters_to_km distance_m)"
  define cond where "cond \<longleftrightarrow>
    l_per_100km \<noteq> None \<and> dist_val \<noteq> None \<and> unit_system = ''metric''"
  define trip where "trip =
    ''Trip Duration: '' @ (if duration_s \<noteq> PNone then seconds_to_hms duration_s else ''N/A'')"
  define dist where "dist = ''Distance: '' @ (case dist_val of
                                None \<Rightarrow> ''N/A''
                              | Some d \<Rightarrow> fmt_fixed 2 d @ '' ''
                                  @ (if unit_system = ''imperial'' then ''miles'' else ''km''))"
  from print_route_out [OF assms(1-3), of l_per_100km repr orig dest unit_system w]
  obtain r ls where r: "l_per_100km \<noteq> None \<longrightarrow> fdiv (the l_per_100km) f100 = Inr r"
    and o: "out (snd (print_route repr orig dest data unit_system l_per_100km w))
       = out w
         @ [[CHR 0x0A] @ ''API Status: Successful route call.'' @ [CHR 0x0A], rule_line,
            ''Directions from '' @ orig @ '' to '' @ dest, trip, dist]
         @ (if cond then [fuel_line (fmul (the dist_val) r) (the l_per_100km)] else [])
         @ [rule_line] @ ls"
    and ls: "\<forall>x\<in>set ls. \<not> is_fuel_line x"
    unfolding distance_m_def duration_s_def dist_val_def cond_def trip_def dist_def by blast
  have lines: "lines =
      [[CHR 0x0A] @ ''API Status: Successful route call.'' @ [CHR 0x0A], rule_line,
            ''Directions from '' @ orig @ '' to '' @ dest, trip, dist]
         @ (if cond then [fuel_line (fmul (the dist_val) r) (the l_per_100km)] else [])
         @ [rule_line] @ ls"
    by (simp add: lines_def printed_def o)
  have nf: "\<not> is_fuel_line trip" "\<not> is_fuel_line dist"
    unfolding trip_def dist_def by (rule summary_not_fuel)+
  have c: "cond \<longleftrightarrow>
      l_per_100km \<noteq> None \<and> meters_to_km distance_m \<noteq> None \<and> unit_system = ''metric''"
    by (auto simp: cond_def dist_val_def)
  have iff: "(\<exists>x\<in>set lines. is_fuel_line x) \<longleftrightarrow> cond"
    using ls nf summary_not_fuel(1-3) fuel_line_is_fuel by (auto simp: lines)
  have est: "l_per_100km = Some rate \<and> meters_to_km distance_m = Some km \<and> unit_system = ''metric''
      \<longrightarrow> (\<exists>r. fdiv rate f100 = Inr r
             \<and> ''Estimated Fuel Used: '' @ fmt_fixed 2 (fmul km r) @ '' L (at ''
                   @ fmt_fixed 1 rate @ '' L/100km)'' \<in> set lines
             \<and> (\<forall>x\<in>set lines. is_fuel_line x \<longrightarrow>
                   x = ''Estimated Fuel Used: '' @ fmt_fixed 2 (fmul km r) @ '' L (at ''
                         @ fmt_fixed 1 rate @ '' L/100km)''))"
  proof
    assume a: "l_per_100km = Some rate \<and> meters_to_km distance_m = Some km \<and> unit_system = ''metric''"
    let ?t = "''Estimated Fuel Used: '' @ fmt_fixed 2 (fmul km r) @ '' L (at ''
                   @ fmt_fixed 1 rate @ '' L/100km)''"
    from a have cd: "cond" and dv: "dist_val = Some km" by (simp_all add: c dist_val_def)
    have t: "fuel_line (fmul (the dist_val) r) (the l_per_100km) = ?t"
      using a dv by (simp add: fuel_line_def)
    have l: "lines =
      [[CHR 0x0A] @ ''API Status: Successful route call.'' @ [CHR 0x0A], rule_line,
            ''Directions from '' @ orig @ '' to '' @ dest, trip, dist] @ [?t] @ [rule_line] @ ls"
      using cd by (simp only: lines t if_True)
    have f: "fdiv rate f100 = Inr r" using a r by simp
    have m: "?t \<in> set lines" by (simp only: l) simp
    have u: "\<forall>x\<in>set lines. is_fuel_line x \<longrightarrow> x = ?t"
      using ls nf summary_not_fuel(1-3) by (auto simp: l)
    from f m u show "\<exists>r. fdiv rate f100 = Inr r
             \<and> ''Estimated Fuel Used: '' @ fmt_fixed 2 (fmul km r) @ '' L (at ''
                   @ fmt_fixed 1 rate @ '' L/100km)'' \<in> set lines
             \<and> (\<forall>x\<in>set lines. is_fuel_line x \<longrightarrow>
                   x = ''Estimated Fuel Used: '' @ fmt_fixed 2 (fmul km r) @ '' L (at ''
                         @ fmt_fixed 1 rate @ '' L/100km)'')"
      by blast
  qed
  have ar: "fdiv (Fin q) f100 = Inr (fl (q < 0) (q / 100))"
    "fmul (Fin a) (Fin b) = fl ((a < 0) \<noteq> (b < 0)) (a * b)"
    by (simp_all add: f100_def fdiv_Fin_pos fmul_def finf_def fneg_def fval_def)
  have imp: "unit_system = ''imperial'' \<longrightarrow> \<not> (\<exists>x\<in>set lines. is_fuel_line x)"
    using iff c by simp
  have ex: "map_of sg ''distance'' = Some (PInt 10000) \<and> map_of sg ''duration'' = Some (PInt 1800)
         \<and> unit_system = ''metric'' \<and> l_per_100km = Some (Fin 8) \<longrightarrow>
          ''Distance: 10.00 km'' \<in> set lines
          \<and> ''Trip Duration: 00:30:00'' \<in> set lines
          \<and> ''Estimated Fuel Used: 0.80 L (at 8.0 L/100km)'' \<in> set lines"
  proof
    assume a: "map_of sg ''distance'' = Some (PInt 10000) \<and> map_of sg ''duration'' = Some (PInt 1800)
         \<and> unit_system = ''metric'' \<and> l_per_100km = Some (Fin 8)"
    then have dv: "dist_val = Some (Fin 10)"
      by (simp add: dist_val_def distance_m_def meters_to_km_10000)
    with a have cd: cond by (simp add: cond_def)
    from a r have rr: "r = Fin (5764607523034235 / 72057594037927936)"
      by (simp add: fdiv_8_100)
    have t: "trip = ''Trip Duration: 00:30:00''"
      using a by (simp add: trip_def duration_s_def seconds_to_hms_1800)
    have di: "dist = ''Distance: 10.00 km''"
      using a dv by (simp add: dist_def fmt_examples)
    have fu: "fuel_line (fmul (the dist_val) r) (the l_per_100km)
        = ''Estimated Fuel Used: 0.80 L (at 8.0 L/100km)''"
      using a dv rr by (simp add: fuel_line_example)
    have "dist \<in> set lines" "trip \<in> set lines"
      "fuel_line (fmul (the dist_val) r) (the l_per_100km) \<in> set lines"
      using cd by (simp_all add: lines)
    then show "''Distance: 10.00 km'' \<in> set lines
          \<and> ''Trip Duration: 00:30:00'' \<in> set lines
          \<and> ''Estimated Fuel Used: 0.80 L (at 8.0 L/100km)'' \<in> set lines"
      by (simp only: t di fu) 
  qed
  from iff c est ar imp ex show ?thesis by blast
qed

theorem fuel_estimate_line_witness:
  "(\<exists>x\<in>set (printed w0 (snd (print_route (\<lambda>v. ''?'') ''Oslo'' ''Rome'' sample_route ''metric''
        (Some (Fin 8)) w0))). is_fuel_line x)
   \<and> ''Distance: 10.00 km''
       \<in> set (printed w0 (snd (print_route (\<lambda>v. ''?'') ''Oslo'' ''Rome'' sample_route ''metric''
                (Some (Fin 8)) w0)))
   \<and> ''Trip Duration: 00:30:00''
       \<in> set (printed w0 (snd (print_route (\<lambda>v. ''?'') ''Oslo'' ''Rome'' sample_route ''metric''
                (Some (Fin 8)) w0)))
   \<and> ''Estimated Fuel Used: 0.80 L (at 8.0 L/100km)''
       \<in> set (printed w0 (snd (print_route (\<lambda>v. ''?'') ''Oslo'' ''Rome'' sample_route ''metric''
                (Some (Fin 8)) w0)))
   \<and> {x \<in> set (printed w0 (snd (print_route (\<lambda>v. ''?'') ''Oslo'' ''Rome'' sample_route ''metric''
                (Some (Fin 8)) w0))). is_fuel_line x}
       = {''Estimated Fuel Used: 0.80 L (at 8.0 L/100km)''}
   \<and> \<not> (\<exists>x\<in>set (printed w0 (snd (print_route (\<lambda>v. ''?'') ''Oslo'' ''Rome'' sample_route ''imperial''
        (Some (Fin 8)) w0))). is_fuel_line x)"
proof -
  have s: "sample_route = PDict [(''routes'', PList [PDict [(''segments'', PList [PDict sample_segment])]])]"
    "map_of [(''routes'', PList [PDict [(''segments'', PList [PDict sample_segment])]])] ''routes''
       = Some (PList (PDict [(''segments'', PList [PDict sample_segment])] # []))"
    "map_of [(''segments'', PList [PDict sample_segment])] ''segments''
       = Some (PList (PDict sample_segment # []))"
    by (simp_all add: sample_route_def)
  have d: "map_of sample_segment ''distance'' = Some (PInt 10000)"
    "map_of sample_segment ''duration'' = Some (PInt 1800)"
    by (simp_all add: sample_segment_def)
  note m = fuel_estimate_line [OF s, where unit_system = "''metric''" and l_per_100km = "Some (Fin 8)"
      and rate = "Fin 8" and km = "Fin 10" and repr = "\<lambda>v. ''?''" and orig = "''Oslo''"
      and dest = "''Rome''" and w = w0]
  note i = fuel_estimate_line [OF s, where unit_system = "''imperial''"
      and l_per_100km = "Some (Fin 8)" and repr = "\<lambda>v. ''?''" and orig = "''Oslo''"
      and dest = "''Rome''" and w = w0]
  let ?L = "printed w0 (snd (print_route (\<lambda>v. ''?'') ''Oslo'' ''Rome'' sample_route ''metric''
      (Some (Fin 8)) w0))"
  let ?E = "''Estimated Fuel Used: 0.80 L (at 8.0 L/100km)''"
  from m d meters_to_km_10000
  have a: "(\<exists>x\<in>set ?L. is_fuel_line x) \<and> ''Distance: 10.00 km'' \<in> set ?L
    \<and> ''Trip Duration: 00:30:00'' \<in> set ?L \<and> ?E \<in> set ?L"
    by simp
  have p: "Some (Fin 8) = Some (Fin 8)
    \<and> meters_to_km (case map_of sample_segment ''distance'' of Some v \<Rightarrow> v | None \<Rightarrow> PNone)
        = Some (Fin 10)
    \<and> ''metric'' = ''metric''"
    by (simp add: d meters_to_km_10000)
  from m [THEN conjunct2, THEN conjunct1, THEN mp, OF p]
  obtain r where r: "fdiv (Fin 8) f100 = Inr r"
    and u0: "\<forall>x\<in>set ?L. is_fuel_line x \<longrightarrow>
      x = ''Estimated Fuel Used: '' @ fmt_fixed 2 (fmul (Fin 10) r) @ '' L (at ''
            @ fmt_fixed 1 (Fin 8) @ '' L/100km)''"
    by blast
  from r have req: "r = Fin (5764607523034235 / 72057594037927936)"
    by (simp add: fdiv_8_100)
  have a5: "\<forall>x\<in>set ?L. is_fuel_line x \<longrightarrow> x = ?E"
    using u0 unfolding req fuel_line_example [unfolded fuel_line_def] .
  have e: "is_fuel_line ?E" by (simp add: is_fuel_line_def)
  from a a5 e have u: "{x \<in> set ?L. is_fuel_line x} = {?E}" by blast
  from i have n: "\<not> (\<exists>x\<in>set (printed w0 (snd (print_route (\<lambda>v. ''?'') ''Oslo'' ''Rome''
      sample_route ''imperial'' (Some (Fin 8)) w0))). is_fuel_line x)"
    by simp
  from a u n show ?thesis by blast
qed

subsection \<open>The duration format\<close>

text \<open>
  Claim C5, as stated, fails on numeric inputs that \<^verbatim>\<open>float\<close> or \<^verbatim>\<open>round\<close> reject: for
  the integer \<open>2\<^sup>1\<^sup>0\<^sup>2\<^sup>4\<close> and for an infinity the result is \<^verbatim>\<open>N/A\<close>, not a rendering of
  hours, minutes and seconds.
\<close>

theorem seconds_to_hms_not_rendered:
  "seconds_to_hms (PInt (2 ^ 1024)) = ''N/A'' \<and> seconds_to_hms (PFloat PosInf) = ''N/A''"
  by (simp add: seconds_to_hms_def py_float_def float_of_int_def round_float_def)

text \<open>
  Claim C5, amended. For every input that \<^verbatim>\<open>float\<close> converts to a value that
  \<^verbatim>\<open>round\<close> accepts, the result is the three fields \<^verbatim>\<open>02d\<close> of hours, minutes and
  seconds of the rounded value, separated by colons: minutes and seconds are between
  0 and 59 and two characters long, hours are not capped and at least two characters
  long. \<^verbatim>\<open>round\<close> takes a finite float to a nearest integer, and to the even one when
  two are equally near: 0.5 gives \<^verbatim>\<open>00:00:00\<close>, 1.5 and 2.5 give \<^verbatim>\<open>00:00:02\<close>. For every
  input that \<^verbatim>\<open>float\<close> rejects, and for NaN and the infinities, the result is \<^verbatim>\<open>N/A\<close>.
  The three examples of the claim hold.
\<close>

theorem seconds_to_hms_format:
  "(py_float s = Inr f \<and> round_float f = Inr n \<longrightarrow>
      seconds_to_hms s
        = fmt_02d (n div 3600) @ '':'' @ fmt_02d (n mod 3600 div 60) @ '':'' @ fmt_02d (n mod 60)
      \<and> 0 \<le> n mod 3600 div 60 \<and> n mod 3600 div 60 \<le> 59
      \<and> 0 \<le> n mod 60 \<and> n mod 60 \<le> 59
      \<and> n = 3600 * (n div 3600) + 60 * (n mod 3600 div 60) + n mod 60
      \<and> 2 \<le> length (fmt_02d (n div 3600))
      \<and> length (fmt_02d (n mod 3600 div 60)) = 2
      \<and> length (fmt_02d (n mod 60)) = 2)
   \<and> round_float (Fin x) = Inr (rne x) \<and> \<bar>x - of_int (rne x)\<bar> \<le> 1 / 2
   \<and> (x - of_int \<lfloor>x\<rfloor> = 1 / 2 \<longrightarrow> even (rne x))
   \<and> round_float NegZero = Inr 0
   \<and> (py_float s = Inl e \<longrightarrow> seconds_to_hms s = ''N/A'')
   \<and> (py_float s = Inr f \<and> (f = NaN \<or> f = PosInf \<or> f = NegInf) \<longrightarrow>
        seconds_to_hms s = ''N/A'')
   \<and> seconds_to_hms PNone = ''N/A''
   \<and> seconds_to_hms (PInt 3725) = ''01:02:05''
   \<and> seconds_to_hms (PStr ''bad'') = ''N/A''
   \<and> seconds_to_hms (PInt 90061) = ''25:01:01''
   \<and> seconds_to_hms (PFloat (Fin (1 / 2))) = ''00:00:00''
   \<and> seconds_to_hms (PFloat (Fin (3 / 2))) = ''00:00:02''
   \<and> seconds_to_hms (PFloat (Fin (5 / 2))) = ''00:00:02''"
proof -
  have a: "py_float s = Inr f \<and> round_float f = Inr n \<longrightarrow>
      seconds_to_hms s
        = fmt_02d (n div 3600) @ '':'' @ fmt_02d (n mod 3600 div 60) @ '':'' @ fmt_02d (n mod 60)
      \<and> 0 \<le> n mod 3600 div 60 \<and> n mod 3600 div 60 \<le> 59
      \<and> 0 \<le> n mod 60 \<and> n mod 60 \<le> 59
      \<and> n = 3600 * (n div 3600) + 60 * (n mod 3600 div 60) + n mod 60
      \<and> 2 \<le> length (fmt_02d (n div 3600))
      \<and> length (fmt_02d (n mod 3600 div 60)) = 2
      \<and> length (fmt_02d (n mod 60)) = 2"
  proof
    assume h: "py_float s = Inr f \<and> round_float f = Inr n"
    note m = hms_fields(1,2) [of n] and c = hms_fields(3,4) [of n] and d = hms_fields(5) [of n]
    from h have "seconds_to_hms s
        = fmt_02d (n div 3600) @ '':'' @ fmt_02d (n mod 3600 div 60) @ '':'' @ fmt_02d (n mod 60)"
      by (simp add: seconds_to_hms_def Let_def)
    moreover have "length (fmt_02d (n mod 3600 div 60)) = 2" "length (fmt_02d (n mod 60)) = 2"
      using m c by (simp_all add: length_fmt_02d_field)
    ultimately show "seconds_to_hms s
        = fmt_02d (n div 3600) @ '':'' @ fmt_02d (n mod 3600 div 60) @ '':'' @ fmt_02d (n mod 60)
      \<and> 0 \<le> n mod 3600 div 60 \<and> n mod 3600 div 60 \<le> 59
      \<and> 0 \<le> n mod 60 \<and> n mod 60 \<le> 59
      \<and> n = 3600 * (n div 3600) + 60 * (n mod 3600 div 60) + n mod 60
      \<and> 2 \<le> length (fmt_02d (n div 3600))
      \<and> length (fmt_02d (n mod 3600 div 60)) = 2
      \<and> length (fmt_02d (n mod 60)) = 2"
      using m c d length_fmt_02d_ge by blast
  qed
  have b: "round_float (Fin x) = Inr (rne x)" "round_float NegZero = Inr 0"
    by (simp_all add: round_float_def)
  have e: "py_float s = Inl e \<longrightarrow> seconds_to_hms s = ''N/A''"
    by (simp add: seconds_to_hms_def)
  have g: "py_float s = Inr f \<and> (f = NaN \<or> f = PosInf \<or> f = NegInf) \<longrightarrow>
        seconds_to_hms s = ''N/A''"
    by (auto simp: seconds_to_hms_def round_float_def)
  have n: "seconds_to_hms PNone = ''N/A''"
    by (simp add: seconds_to_hms_def py_float_def)
  have x1: "seconds_to_hms (PInt 3725) = ''01:02:05''"
    using py_float_small_int [of 3725]
    by (simp add: seconds_to_hms_def round_float_def rne_def Let_def fmt_02d_def str_int_def
        str_nat.simps digit_char_def)
  have x2: "seconds_to_hms (PStr ''bad'') = ''N/A''"
    by (simp add: seconds_to_hms_def py_float_def float_of_str_bad)
  have x3: "seconds_to_hms (PInt 90061) = ''25:01:01''"
    using py_float_small_int [of 90061]
    by (simp add: seconds_to_hms_def round_float_def rne_def Let_def fmt_02d_def str_int_def
        str_nat.simps digit_char_def)
  have t: "x - of_int \<lfloor>x\<rfloor> = 1 / 2 \<longrightarrow> even (rne x)"
    by (simp add: rne_tie_even)
  have y: "seconds_to_hms (PFloat (Fin (1 / 2))) = ''00:00:00''"
    "seconds_to_hms (PFloat (Fin (3 / 2))) = ''00:00:02''"
    "seconds_to_hms (PFloat (Fin (5 / 2))) = ''00:00:02''"
    by (simp_all add: seconds_to_hms_def py_float_def round_float_def rne_def Let_def fmt_02d_def
        str_int_def str_nat.simps digit_char_def)
  from a b rne_nearest [of x] t e g n x1 x2 x3 y show ?thesis by blast
qed

theorem seconds_to_hms_format_witness:
  "seconds_to_hms (PInt 3725) = fmt_02d 1 @ '':'' @ fmt_02d 2 @ '':'' @ fmt_02d 5
   \<and> length (fmt_02d 2) = 2
   \<and> seconds_to_hms (PStr ''bad'') = ''N/A''
   \<and> seconds_to_hms (PFloat NaN) = ''N/A''
   \<and> even (rne (5 / 2))"
proof -
  have p: "py_float (PInt 3725) = Inr (Fin 3725)"
    using py_float_small_int [of 3725] by simp
  have r: "round_float (Fin 3725) = Inr 3725"
    by (simp add: round_float_def rne_def Let_def)
  have b: "py_float (PStr ''bad'') = Inl ValueError"
    by (simp add: py_float_def float_of_str_bad)
  have n: "py_float (PFloat NaN) = Inr NaN"
    by (simp add: py_float_def)
  show ?thesis
    using seconds_to_hms_format [where s = "PInt 3725" and f = "Fin 3725" and n = 3725]
      seconds_to_hms_format [where s = "PStr ''bad''" and e = ValueError]
      seconds_to_hms_format [where s = "PFloat NaN" and f = NaN and x = "5 / 2"]
      p r b n
    by simp
qed

subsection \<open>The distance helpers\<close>




subsection \<open>The credential\<close>

text \<open>
  Claim C7. \<^verbatim>\<open>read_api_key\<close> should return a credential that is not empty or exit, and
  use the environment variable only when it is not empty after trimming. The source
  tests the variable before trimming it: a variable of three spaces is returned
  trimmed, as the empty string, with no prompt and no exit.
\<close>

theorem read_api_key_blank_environment:
  "read_api_key (\<lambda>name. if name = ''ORS_API_KEY'' then Some ''   '' else None) entry w = (Inr [], w)"
  by (simp add: read_api_key_def strip_def is_space_def)

subsection \<open>Structured errors in the loop\<close>

text \<open>
  Claim C8. In an iteration whose two addresses are geocoded and whose directions
  request is answered with a status other than 200, \<^verbatim>\<open>fetch_route\<close> returns the error
  of that status, the loop prints the message of the status for 401, 403, 429 and 400
  and \<^verbatim>\<open>Error {status}: {message}\<close> for any other, and goes on with the next
  iteration on the remaining input.
\<close>

theorem loop_continues_after_error:
  "\<not> is_quit (strip l1) \<and> \<not> is_quit (strip l2)
   \<and> geocode_address net (strip l1) key
         (print ''Destination: '' (print ([CHR 0x0A] @ ''Starting Location: '') w)) = (Inr oc, w3)
   \<and> geocode_address net (strip l2) key w3 = (Inr dc, w4)
   \<and> truthy oc \<and> truthy dc
   \<and> net (reqs w4) (directions_request oc dc key) = Response r
   \<and> status_code r \<noteq> 200
   \<longrightarrow>
     (\<exists>message w5.
        fetch_route repr net oc dc key w4
          = ((PNone, PDict [(''status'', PInt (status_code r)), (''message'', message)]), w5)
      \<and> main_loop repr net key unit_system l_per_100km (l1 # l2 # rest) w
          = main_loop repr net key unit_system l_per_100km rest
              (print
                (if status_code r = 401 then
                   ''Error 401: Unauthorized. Check your API key (ORS_API_KEY).''
                 else if status_code r = 403 then
                   ''Error 403: Forbidden. Your API key may not have access to this endpoint.''
                 else if status_code r = 429 then
                   ''Error 429: Rate limit exceeded. Please wait and try again later.''
                 else if status_code r = 400 then
                   ''Error 400: Bad request. Check coordinates or request body.''
                 else ''Error '' @ str_int (status_code r) @ '': '' @ py_str repr message)
                w5))"
proof (intro impI, elim conjE)
  assume q: "\<not> is_quit (strip l1)" "\<not> is_quit (strip l2)"
    and g1: "geocode_address net (strip l1) key
         (print ''Destination: '' (print ([CHR 0x0A] @ ''Starting Location: '') w)) = (Inr oc, w3)"
    and g2: "geocode_address net (strip l2) key w3 = (Inr dc, w4)"
    and t: "truthy oc" "truthy dc"
    and n: "net (reqs w4) (directions_request oc dc key) = Response r"
    and s: "status_code r \<noteq> 200"
  define body where "body = (case resp_json r of
      Some d \<Rightarrow> d | None \<Rightarrow> PDict [(''raw'', PStr (resp_text r))])"
  define message where "message = (if is_dict body then body
      else PDict [(''error'', PStr (py_str repr body))])"
  define w5 where "w5 = w4\<lparr>reqs := reqs w4 @ [directions_request oc dc key]\<rparr>"
  have f: "fetch_route repr net oc dc key w4
      = ((PNone, PDict [(''status'', PInt (status_code r)), (''message'', message)]), w5)"
    using n s by (simp add: fetch_route_def send_def Let_def body_def message_def w5_def)
  have m: "error_message repr (PInt (status_code r)) message =
      (if status_code r = 401 then
         ''Error 401: Unauthorized. Check your API key (ORS_API_KEY).''
       else if status_code r = 403 then
         ''Error 403: Forbidden. Your API key may not have access to this endpoint.''
       else if status_code r = 429 then
         ''Error 429: Rate limit exceeded. Please wait and try again later.''
       else if status_code r = 400 then
         ''Error 400: Bad request. Check coordinates or request body.''
       else ''Error '' @ str_int (status_code r) @ '': '' @ py_str repr message)"
    by (simp add: error_message_def eq_int_def py_str_def)
  have "main_loop repr net key unit_system l_per_100km (l1 # l2 # rest) w
      = main_loop repr net key unit_system l_per_100km rest
          (print (error_message repr (PInt (status_code r)) message) w5)"
    using q g1 g2 t f by (simp add: Let_def truthy_def dict_get_def)
  with f m show "\<exists>message w5.
        fetch_route repr net oc dc key w4
          = ((PNone, PDict [(''status'', PInt (status_code r)), (''message'', message)]), w5)
      \<and> main_loop repr net key unit_system l_per_100km (l1 # l2 # rest) w
          = main_loop repr net key unit_system l_per_100km rest
              (print
                (if status_code r = 401 then
                   ''Error 401: Unauthorized. Check your API key (ORS_API_KEY).''
                 else if status_code r = 403 then
                   ''Error 403: Forbidden. Your API key may not have access to this endpoint.''
                 else if status_code r = 429 then
                   ''Error 429: Rate limit exceeded. Please wait and try again later.''
                 else if status_code r = 400 then
                   ''Error 400: Bad request. Check coordinates or request body.''
                 else ''Error '' @ str_int (status_code r) @ '': '' @ py_str repr message)
                w5)"
    by auto
qed

lemmas geocode_eval =
  geocode_address_def send_def geocode_request_def dict_get_def truthy_def index0_def
  py_len_def unpack2_def py_iter_def in_range_def le_int_val_def le_val_int_def
  le_int_float_def le_float_int_def quoted_def print_def fzero_def

theorem loop_continues_after_error_witness:
  "main_loop (\<lambda>v. ''?'') net_401 ''k'' ''metric'' None [''Oslo'', ''Rome'', ''quit'']
     \<lparr>reqs = [], out = []\<rparr>
   = (Inr (), [],
      \<lparr>reqs = [geocode_request ''Oslo'' ''k'', geocode_request ''Rome'' ''k'',
                directions_request (PList [PFloat (Fin 10.75), PFloat (Fin 59.5)])
                  (PList [PFloat (Fin 10.75), PFloat (Fin 59.5)]) ''k''],
         out = [[CHR 0x0A] @ ''Starting Location: '', ''Destination: '',
                ''Error 401: Unauthorized. Check your API key (ORS_API_KEY).'',
                [CHR 0x0A] @ ''Starting Location: '']\<rparr>)"
proof -
  let ?c = "PList [PFloat (Fin 10.75), PFloat (Fin 59.5)]"
  let ?w = "\<lparr>reqs = [], out = []\<rparr>"
  let ?w3 = "\<lparr>reqs = [geocode_request ''Oslo'' ''k''],
               out = [[CHR 0x0A] @ ''Starting Location: '', ''Destination: '']\<rparr>"
  let ?w4 = "\<lparr>reqs = [geocode_request ''Oslo'' ''k'', geocode_request ''Rome'' ''k''],
               out = [[CHR 0x0A] @ ''Starting Location: '', ''Destination: '']\<rparr>"
  let ?r = "\<lparr>status_code = 401, resp_text = ''no'', resp_json = None\<rparr>"
  have s1: "strip ''Oslo'' = ''Oslo''" and s2: "strip ''Rome'' = ''Rome''"
    and s3: "strip ''quit'' = ''quit''"
    by (simp_all add: strip_def is_space_def)
  have q1: "\<not> is_quit (strip ''Oslo'')" and q2: "\<not> is_quit (strip ''Rome'')"
    and q3: "is_quit (strip ''quit'')"
    by (simp_all add: s1 s2 s3 is_quit_def lower_def lower_char_def)
  have g1: "geocode_address net_401 (strip ''Oslo'') ''k''
      (print ''Destination: '' (print ([CHR 0x0A] @ ''Starting Location: '') ?w)) = (Inr ?c, ?w3)"
    by (simp add: s1 net_401_def geo_response_def feature_def geocode_eval)
  have g2: "geocode_address net_401 (strip ''Rome'') ''k'' ?w3 = (Inr ?c, ?w4)"
    by (simp add: s2 net_401_def geo_response_def feature_def geocode_eval)
  have t: "truthy ?c" by (simp add: truthy_def)
  have n: "net_401 (reqs ?w4) (directions_request ?c ?c ''k'') = Response ?r"
    by (simp add: net_401_def directions_request_def)
  have f: "fetch_route (\<lambda>v. ''?'') net_401 ?c ?c ''k'' ?w4
      = ((PNone, PDict [(''status'', PInt 401), (''message'', PDict [(''raw'', PStr ''no'')])]),
         ?w4\<lparr>reqs := reqs ?w4 @ [directions_request ?c ?c ''k'']\<rparr>)"
    by (simp add: fetch_route_def send_def net_401_def directions_request_def is_dict_def)
  show ?thesis
    using loop_continues_after_error [where ?l1.0 = "''Oslo''" and ?l2.0 = "''Rome''"
        and net = net_401 and key = "''k''" and w = ?w and oc = ?c and dc = ?c and ?w3.0 = ?w3
        and ?w4.0 = ?w4 and r = ?r and repr = "\<lambda>v. ''?''" and unit_system = "''metric''"
        and l_per_100km = None and rest = "[''quit'']"]
      q1 q2 q3 g1 g2 t n f
    by (auto simp: print_def Let_def)
qed

subsection \<open>Leaving the loop\<close>

text \<open>
  Claim C9. In any iteration, an origin that is \<^verbatim>\<open>quit\<close> or \<^verbatim>\<open>q\<close> in any case after
  trimming ends the loop at once, and so does such a destination after an origin that
  is not; in both cases only the prompts are written and no request is made.
\<close>

theorem quit_leaves_loop:
  "(is_quit (strip l1) \<longrightarrow>
      main_loop repr net key unit_system l_per_100km (l1 # rest) w
        = (Inr (), rest, print ([CHR 0x0A] @ ''Starting Location: '') w)
      \<and> reqs (snd (snd (main_loop repr net key unit_system l_per_100km (l1 # rest) w))) = reqs w)
   \<and> (\<not> is_quit (strip l1) \<and> is_quit (strip l2) \<longrightarrow>
      main_loop repr net key unit_system l_per_100km (l1 # l2 # rest) w
        = (Inr (), rest, print ''Destination: '' (print ([CHR 0x0A] @ ''Starting Location: '') w))
      \<and> reqs (snd (snd (main_loop repr net key unit_system l_per_100km (l1 # l2 # rest) w))) = reqs w)"
  by (simp add: Let_def)

theorem quit_leaves_loop_witness:
  "main_loop (\<lambda>v. ''?'') (\<lambda>h q. RequestException ''down'') ''k'' ''metric'' None
      ['' Quit '', ''Oslo''] \<lparr>reqs = [], out = []\<rparr>
     = (Inr (), [''Oslo''], \<lparr>reqs = [], out = [[CHR 0x0A] @ ''Starting Location: '']\<rparr>)
   \<and> main_loop (\<lambda>v. ''?'') (\<lambda>h q. RequestException ''down'') ''k'' ''metric'' None
      [''Oslo'', ''Q'', ''Rome''] \<lparr>reqs = [], out = []\<rparr>
     = (Inr (), [''Rome''],
        \<lparr>reqs = [], out = [[CHR 0x0A] @ ''Starting Location: '', ''Destination: '']\<rparr>)"
proof -
  have q1: "is_quit (strip '' Quit '')"
    by (simp add: is_quit_def strip_def is_space_def lower_def lower_char_def)
  have q2: "\<not> is_quit (strip ''Oslo'')"
    by (simp add: is_quit_def strip_def is_space_def lower_def lower_char_def)
  have q3: "is_quit (strip ''Q'')"
    by (simp add: is_quit_def strip_def is_space_def lower_def lower_char_def)
  show ?thesis
    using quit_leaves_loop [where ?l1.0 = "'' Quit ''" and repr = "\<lambda>v. ''?''"
        and net = "\<lambda>h q. RequestException ''down''" and key = "''k''"
        and unit_system = "''metric''" and l_per_100km = None and rest = "[''Oslo'']"
        and w = "\<lparr>reqs = [], out = []\<rparr>"]
      quit_leaves_loop [where ?l1.0 = "''Oslo''" and ?l2.0 = "''Q''" and repr = "\<lambda>v. ''?''"
        and net = "\<lambda>h q. RequestException ''down''" and key = "''k''"
        and unit_system = "''metric''" and l_per_100km = None and rest = "[''Rome'']"
        and w = "\<lparr>reqs = [], out = []\<rparr>"]
      q1 q2 q3
    by (simp add: print_def)
qed

subsection \<open>The lines of the steps\<close>

text \<open>
  Claim C10, as stated, fails on a distance that is a number but too large for a
  double: the parenthetical is omitted although the value is numeric.
\<close>

theorem step_distance_overflow:
  "print_steps (\<lambda>v. ''?'') ''metric'' 1
     [PDict [(''instruction'', PStr ''Go''), (''distance'', PInt (2 ^ 1024))]] w0
   = (Inr (), \<lparr>reqs = [], out = [''1. Go'']\<rparr>)"
  by (simp add: dict_get_def meters_to_km_def py_float_def float_of_int_def py_str_def
      str_nat.simps digit_char_def print_def w0_def)

text \<open>
  Claim C10, amended. The steps of a segment are printed by the loop, numbered from 1.
  A step without \<^verbatim>\<open>distance\<close> is printed with \<^verbatim>\<open>(0.00 km)\<close>, or \<^verbatim>\<open>(0.00 mi)\<close> when
  the unit system is \<^verbatim>\<open>imperial\<close>; a step whose distance \<^verbatim>\<open>float\<close> rejects is printed
  without the parenthetical; a step whose distance \<^verbatim>\<open>float\<close> converts is printed with
  the converted distance. An instruction that is missing is printed as \<^verbatim>\<open>N/A\<close>.
\<close>

theorem step_lines:
  "(map_of sg ''steps'' = Some (PList (x # xs)) \<longrightarrow>
      print_directions repr unit_system (PDict sg) w
        = (case print_steps repr unit_system 1 (x # xs) w of
             (Inl e, w') \<Rightarrow> (Inl e, w')
           | (Inr u, w') \<Rightarrow> (Inr (), print (rule_line @ [CHR 0x0A]) w')))
   \<and> (map_of kvs ''distance'' = None \<longrightarrow>
      print_steps repr unit_system idx (PDict kvs # steps) w
        = print_steps repr unit_system (Suc idx) steps
            (print (str_nat idx @ ''. ''
                      @ py_str repr (case map_of kvs ''instruction'' of
                                       Some v \<Rightarrow> v | None \<Rightarrow> PStr ''N/A'')
                      @ (if unit_system = ''imperial'' then '' (0.00 mi)'' else '' (0.00 km)'')) w))
   \<and> (map_of kvs ''distance'' = Some v \<and> py_float v = Inl e \<longrightarrow>
      print_steps repr unit_system idx (PDict kvs # steps) w
        = print_steps repr unit_system (Suc idx) steps
            (print (str_nat idx @ ''. ''
                      @ py_str repr (case map_of kvs ''instruction'' of
                                       Some v \<Rightarrow> v | None \<Rightarrow> PStr ''N/A'')) w))
   \<and> (map_of kvs ''distance'' = Some v \<and> py_float v = Inr f \<longrightarrow>
      (\<exists>d. (if unit_system = ''imperial'' then meters_to_miles v else meters_to_km v) = Some d
        \<and> print_steps repr unit_system idx (PDict kvs # steps) w
          = print_steps repr unit_system (Suc idx) steps
              (print (str_nat idx @ ''. ''
                        @ py_str repr (case map_of kvs ''instruction'' of
                                         Some v \<Rightarrow> v | None \<Rightarrow> PStr ''N/A'')
                        @ '' ('' @ fmt_fixed 2 d @ '' ''
                        @ (if unit_system = ''imperial'' then ''mi'' else ''km'') @ '')'') w)))
   \<and> py_str repr (PStr ''N/A'') = ''N/A''"
proof (intro conjI impI)
  assume "map_of sg ''steps'' = Some (PList (x # xs))"
  then show "print_directions repr unit_system (PDict sg) w
        = (case print_steps repr unit_system 1 (x # xs) w of
             (Inl e, w') \<Rightarrow> (Inl e, w')
           | (Inr u, w') \<Rightarrow> (Inr (), print (rule_line @ [CHR 0x0A]) w'))"
    by (simp add: print_directions_def dict_get_def truthy_def py_iter_def)
next
  assume "map_of kvs ''distance'' = None"
  then show "print_steps repr unit_system idx (PDict kvs # steps) w
        = print_steps repr unit_system (Suc idx) steps
            (print (str_nat idx @ ''. ''
                      @ py_str repr (case map_of kvs ''instruction'' of
                                       Some v \<Rightarrow> v | None \<Rightarrow> PStr ''N/A'')
                      @ (if unit_system = ''imperial'' then '' (0.00 mi)'' else '' (0.00 km)'')) w)"
    by (simp add: dict_get_def meters_zero fmt_examples)
next
  assume "map_of kvs ''distance'' = Some v \<and> py_float v = Inl e"
  then show "print_steps repr unit_system idx (PDict kvs # steps) w
        = print_steps repr unit_system (Suc idx) steps
            (print (str_nat idx @ ''. ''
                      @ py_str repr (case map_of kvs ''instruction'' of
                                       Some v \<Rightarrow> v | None \<Rightarrow> PStr ''N/A'')) w)"
    by (simp add: dict_get_def meters_None)
next
  assume a: "map_of kvs ''distance'' = Some v \<and> py_float v = Inr f"
  then obtain d where d: "(if unit_system = ''imperial'' then meters_to_miles v else meters_to_km v) = Some d"
    using meters_Some [of v f] by (cases "unit_system = ''imperial''") auto
  with a have "print_steps repr unit_system idx (PDict kvs # steps) w
          = print_steps repr unit_system (Suc idx) steps
              (print (str_nat idx @ ''. ''
                        @ py_str repr (case map_of kvs ''instruction'' of
                                         Some v \<Rightarrow> v | None \<Rightarrow> PStr ''N/A'')
                        @ '' ('' @ fmt_fixed 2 d @ '' ''
                        @ (if unit_system = ''imperial'' then ''mi'' else ''km'') @ '')'') w)"
    by (auto simp: dict_get_def)
  with d show "\<exists>d. (if unit_system = ''imperial'' then meters_to_miles v else meters_to_km v) = Some d
        \<and> print_steps repr unit_system idx (PDict kvs # steps) w
          = print_steps repr unit_system (Suc idx) steps
              (print (str_nat idx @ ''. ''
                        @ py_str repr (case map_of kvs ''instruction'' of
                                         Some v \<Rightarrow> v | None \<Rightarrow> PStr ''N/A'')
                        @ '' ('' @ fmt_fixed 2 d @ '' ''
                        @ (if unit_system = ''imperial'' then ''mi'' else ''km'') @ '')'') w)"
    by blast
next
  show "py_str repr (PStr ''N/A'') = ''N/A''" by (simp add: py_str_def)
qed

theorem step_lines_witness:
  "print_directions (\<lambda>v. ''?'') ''metric'' (PDict [(''steps'', PList [PDict [(''instruction'', PStr ''Go'')]])]) w0
     = (Inr (), \<lparr>reqs = [], out = [''1. Go (0.00 km)'', rule_line @ [CHR 0x0A]]\<rparr>)
   \<and> print_steps (\<lambda>v. ''?'') ''imperial'' 1 [PDict []] w0
     = (Inr (), \<lparr>reqs = [], out = [''1. N/A (0.00 mi)'']\<rparr>)
   \<and> print_steps (\<lambda>v. ''?'') ''metric'' 1 [PDict [(''instruction'', PStr ''Go''), (''distance'', PNone)]] w0
     = (Inr (), \<lparr>reqs = [], out = [''1. Go'']\<rparr>)
   \<and> (\<exists>d. meters_to_km (PInt 10000) = Some d
        \<and> print_steps (\<lambda>v. ''?'') ''metric'' 1
              [PDict [(''instruction'', PStr ''Go''), (''distance'', PInt 10000)]] w0
            = (Inr (), \<lparr>reqs = [], out = [''1. Go ('' @ fmt_fixed 2 d @ '' km)'']\<rparr>))"
proof -
  let ?go = "[(''instruction'', PStr ''Go'')]"
  have n1: "str_nat (Suc 0) = ''1''" by (simp add: str_nat.simps digit_char_def)
  have p: "py_float PNone = Inl TypeError" by (simp add: py_float_def)
  have q: "py_float (PInt 10000) = Inr (Fin 10000)"
    using py_float_small_int [of 10000] by simp
  note t1 = step_lines [where sg = "[(''steps'', PList [PDict ?go])]" and x = "PDict ?go"
      and xs = "[]" and kvs = ?go and unit_system = "''metric''" and repr = "\<lambda>v. ''?''"
      and idx = 1 and steps = "[]" and w = w0 and v = PNone and e = TypeError and f = NaN]
  note t2 = step_lines [where sg = "[(''steps'', PList [PDict ?go])]" and x = "PDict ?go"
      and xs = "[]" and kvs = "[]" and unit_system = "''imperial''" and repr = "\<lambda>v. ''?''"
      and idx = 1 and steps = "[]" and w = w0 and v = PNone and e = TypeError and f = NaN]
  note t3 = step_lines [where sg = "[(''steps'', PList [PDict ?go])]" and x = "PDict ?go"
      and xs = "[]" and kvs = "?go @ [(''distance'', PNone)]" and unit_system = "''metric''"
      and repr = "\<lambda>v. ''?''"
      and idx = 1 and steps = "[]" and w = w0 and v = PNone and e = TypeError and f = NaN]
  note t4 = step_lines [where sg = "[(''steps'', PList [PDict ?go])]" and x = "PDict ?go"
      and xs = "[]" and kvs = "?go @ [(''distance'', PInt 10000)]" and unit_system = "''metric''"
      and repr = "\<lambda>v. ''?''"
      and idx = 1 and steps = "[]" and w = w0 and v = "PInt 10000" and e = TypeError
      and f = "Fin 10000"]
  have a: "print_steps (\<lambda>v. ''?'') ''metric'' 1 [PDict ?go] w0
      = (Inr (), \<lparr>reqs = [], out = [''1. Go (0.00 km)'']\<rparr>)"
    by (subst t1 [THEN conjunct2, THEN conjunct1, THEN mp])
      (simp_all add: n1 py_str_def print_def w0_def)
  have b: "print_directions (\<lambda>v. ''?'') ''metric'' (PDict [(''steps'', PList [PDict ?go])]) w0
      = (Inr (), \<lparr>reqs = [], out = [''1. Go (0.00 km)'', rule_line @ [CHR 0x0A]]\<rparr>)"
    by (subst t1 [THEN conjunct1, THEN mp]) (simp_all only: a, simp_all add: print_def)
  have c: "print_steps (\<lambda>v. ''?'') ''imperial'' 1 [PDict []] w0
      = (Inr (), \<lparr>reqs = [], out = [''1. N/A (0.00 mi)'']\<rparr>)"
    by (subst t2 [THEN conjunct2, THEN conjunct1, THEN mp])
      (simp_all add: n1 py_str_def print_def w0_def)
  have d: "print_steps (\<lambda>v. ''?'') ''metric'' 1 [PDict (?go @ [(''distance'', PNone)])] w0
      = (Inr (), \<lparr>reqs = [], out = [''1. Go'']\<rparr>)"
    by (subst t3 [THEN conjunct2, THEN conjunct2, THEN conjunct1, THEN mp])
      (simp_all add: p n1 py_str_def print_def w0_def)
  have "map_of (?go @ [(''distance'', PInt 10000)]) ''distance'' = Some (PInt 10000)
      \<and> py_float (PInt 10000) = Inr (Fin 10000)"
    using q by simp
  from t4 [THEN conjunct2, THEN conjunct2, THEN conjunct2, THEN conjunct1, THEN mp, OF this]
  have e: "\<exists>d. meters_to_km (PInt 10000) = Some d
        \<and> print_steps (\<lambda>v. ''?'') ''metric'' 1
              [PDict (?go @ [(''distance'', PInt 10000)])] w0
            = (Inr (), \<lparr>reqs = [], out = [''1. Go ('' @ fmt_fixed 2 d @ '' km)'']\<rparr>)"
    by (auto simp: n1 py_str_def print_def w0_def simp del: print_steps.simps(2))
  from a b c d e show ?thesis by simp
qed

end
